theory Spec2Isabelle
  imports Complex_Main "HOL-Library.Sublist"
begin

section \<open>Python strings\<close>

text \<open>
  Message texts are Python \<open>str\<close> values. They are modelled as \<^typ>\<open>string\<close>, that is as
  sequences of 8-bit characters: the Latin-1 part of Python's code points. A Python float
  is modelled by the \<^typ>\<open>real\<close> it denotes, Python's unbounded integers as \<^typ>\<open>int\<close> or
  \<^typ>\<open>nat\<close>.
\<close>

definition isspace :: "char \<Rightarrow> bool" where
  \<comment> \<open>\<open>str.isspace\<close> on one character: TAB..CR, FS..US, space, NEL and NBSP.\<close>
  "isspace c =
     (let n = (of_char c :: nat)
      in (9 \<le> n \<and> n \<le> 13) \<or> (28 \<le> n \<and> n \<le> 32) \<or> n = 133 \<or> n = 160)"

definition strip :: "string \<Rightarrow> string" where
  \<comment> \<open>\<open>text.strip()\<close>: leading and trailing whitespace removed.\<close>
  "strip s = rev (dropWhile isspace (rev (dropWhile isspace s)))"

definition lower_char :: "char \<Rightarrow> char" where
  \<comment> \<open>\<open>A..Z\<close> and the Latin-1 capitals (all of \<open>0xC0..0xDE\<close> but the multiplication sign).\<close>
  "lower_char c =
     (let n = (of_char c :: nat)
      in if (65 \<le> n \<and> n \<le> 90) \<or> (192 \<le> n \<and> n \<le> 222 \<and> n \<noteq> 215)
         then char_of (n + 32) else c)"

definition lower :: "string \<Rightarrow> string" where
  \<comment> \<open>\<open>text.lower()\<close>\<close>
  "lower s = map lower_char s"

fun py_in :: "string \<Rightarrow> string \<Rightarrow> bool" where
  \<comment> \<open>\<open>keyword in text\<close>: the keyword occurs as a contiguous substring.\<close>
  "py_in k [] = (k = [])"
| "py_in k (c # cs) = (prefix k (c # cs) \<or> py_in k cs)"

section \<open>Keyword scoring shared by both fallback classifiers\<close>

definition keyword_score :: "string list \<Rightarrow> string \<Rightarrow> nat" where
  \<comment> \<open>\<open>sum(1 for keyword in keywords if keyword in text)\<close>\<close>
  "keyword_score keywords text = length (filter (\<lambda>keyword. py_in keyword text) keywords)"

definition build_scores :: "(string \<times> string list) list \<Rightarrow> string \<Rightarrow> (string \<times> nat) list" where
  \<comment> \<open>The loop that fills the dict \<open>emotion_scores\<close>: one item per emotion whose score is
      positive, in the iteration (declaration) order of the keyword table.\<close>
  "build_scores table text =
     filter (\<lambda>(emotion, score). score > 0)
       (map (\<lambda>(emotion, keywords). (emotion, keyword_score keywords text)) table)"

fun py_max_key :: "('a \<Rightarrow> nat) \<Rightarrow> 'a \<Rightarrow> 'a list \<Rightarrow> 'a" where
  \<comment> \<open>Python's \<open>max(iterable, key=...)\<close> on a non-empty iterable: the running best is
      replaced only by a strictly greater key.\<close>
  "py_max_key key best [] = best"
| "py_max_key key best (x # xs) = py_max_key key (if key x > key best then x else best) xs"

section \<open>The fallback classifier of \<open>ml_utils.py\<close>\<close>

definition ml_emotion_keywords :: "(string \<times> string list) list" where
  "ml_emotion_keywords =
    [(''joy'', [''happy'', ''joy'', ''excited'', ''great'', ''wonderful'', ''amazing'',
               ''fantastic'', ''love'', ''awesome'']),
     (''sadness'', [''sad'', ''depressed'', ''upset'', ''down'', ''crying'', ''tears'',
                   ''lonely'', ''grief'']),
     (''anger'', [''angry'', ''mad'', ''furious'', ''rage'', ''hate'', ''frustrated'',
                 ''annoyed'']),
     (''fear'', [''scared'', ''afraid'', ''fear'', ''anxious'', ''worried'', ''panic'',
                ''terrified'']),
     (''surprise'', [''surprised'', ''shocked'', ''amazed'', ''wow'', ''unexpected'']),
     (''love'', [''love'', ''adore'', ''cherish'', ''romantic'', ''affection'', ''caring''])]"

definition ml_confidence :: "nat \<Rightarrow> real" where
  \<comment> \<open>\<open>min(0.9, emotion_scores[dominant_emotion] * 0.3 + 0.3)\<close>\<close>
  "ml_confidence score = min 0.9 (real score * 0.3 + 0.3)"

definition fallback_emotion_detection :: "string \<Rightarrow> string \<times> real" where
  \<comment> \<open>\<open>EmotionDetector._fallback_emotion_detection\<close> of \<open>ml_utils.py\<close>\<close>
  "fallback_emotion_detection text0 =
     (if strip text0 = [] then (''neutral'', 0.5)
      else
        let text = lower text0;
            emotion_scores = build_scores ml_emotion_keywords text
        in case emotion_scores of
             [] \<Rightarrow> (''neutral'', 0.5)
           | first # rest \<Rightarrow>
               let dominant = py_max_key snd first rest
               in (fst dominant, ml_confidence (snd dominant)))"

section \<open>The fallback classifier of \<open>emotion_detector.py\<close>\<close>

definition emotion_keywords :: "(string \<times> string list) list" where
  "emotion_keywords =
    [(''joy'', [''happy'', ''joyful'', ''excited'', ''cheerful'', ''glad'', ''delighted'',
               ''elated'', ''content'', ''thrilled'', ''ecstatic'', ''blissful'', ''pleased'',
               ''wonderful'', ''fantastic'', ''great'', ''amazing'', ''awesome'', ''brilliant'',
               ''excellent'']),
     (''sadness'', [''sad'', ''depressed'', ''down'', ''unhappy'', ''melancholy'', ''gloomy'',
                   ''miserable'', ''heartbroken'', ''sorrowful'', ''dejected'', ''disappointed'',
                   ''hurt'', ''upset'', ''blue'', ''low'', ''terrible'', ''awful'', ''bad'']),
     (''anger'', [''angry'', ''furious'', ''mad'', ''irritated'', ''annoyed'', ''frustrated'',
                 ''rage'', ''outraged'', ''livid'', ''irate'', ''enraged'', ''indignant'',
                 ''incensed'', ''pissed'', ''hostile'']),
     (''fear'', [''scared'', ''afraid'', ''anxious'', ''worried'', ''nervous'', ''terrified'',
                ''panicked'', ''frightened'', ''fearful'', ''apprehensive'', ''concerned'',
                ''uneasy'', ''distressed'', ''alarmed'']),
     (''surprise'', [''surprised'', ''shocked'', ''amazed'', ''astonished'', ''stunned'',
                    ''bewildered'', ''startled'', ''astounded'', ''flabbergasted'',
                    ''dumbfounded'']),
     (''love'', [''love'', ''adore'', ''cherish'', ''affection'', ''romantic'', ''caring'',
                ''devoted'', ''fond'', ''attached'', ''passionate'', ''infatuated'']),
     (''neutral'', [''okay'', ''fine'', ''normal'', ''regular'', ''usual'', ''alright'',
                   ''decent'', ''average''])]"

definition confidence_of_score :: "nat \<Rightarrow> real" where
  \<comment> \<open>\<open>min(0.8, emotion_scores[detected_emotion] * 0.2 + 0.3)\<close>\<close>
  "confidence_of_score score = min 0.8 (real score * 0.2 + 0.3)"

definition keyword_detection :: "string \<Rightarrow> string \<times> real" where
  \<comment> \<open>The label and confidence computed by \<open>EmotionDetector._fallback_detection\<close>.\<close>
  "keyword_detection text =
     (let text_lower = lower text;
          emotion_scores = build_scores emotion_keywords text_lower
      in case emotion_scores of
           [] \<Rightarrow> (''neutral'', 0.5)
         | first # rest \<Rightarrow>
             let detected = py_max_key snd first rest
             in (fst detected, confidence_of_score (snd detected)))"

section \<open>Exceptions and the opaque model artifacts\<close>

datatype py_exception = PyException string

definition bind_exn :: "py_exception + 'a \<Rightarrow> ('a \<Rightarrow> py_exception + 'b) \<Rightarrow> py_exception + 'b" where
  \<comment> \<open>Sequencing inside a \<open>try\<close> block: the first exception ends the block.\<close>
  "bind_exn r f = (case r of Inl e \<Rightarrow> Inl e | Inr v \<Rightarrow> f v)"

definition call_method :: "('a \<Rightarrow> py_exception + 'b) option \<Rightarrow> 'a \<Rightarrow> py_exception + 'b" where
  \<comment> \<open>Calling an attribute of a loaded object; a missing attribute raises.\<close>
  "call_method m x = (case m of None \<Rightarrow> Inl (PyException ''AttributeError'') | Some f \<Rightarrow> f x)"

type_synonym vec = "real list"

text \<open>
  The unpickled artifacts are arbitrary objects. Each is modelled by what the detector
  observes of it: a method is \<open>None\<close> when the attribute is absent, and a call either raises
  or returns. A predicted value is observed through \<open>isinstance(p, (int, float))\<close>,
  \<open>int(p)\<close> and \<open>str(p)\<close> only.
\<close>

record pyobject =
  is_number :: bool
  int_value :: "py_exception + int"
  str_value :: string

record classifier =
  predict :: "(vec \<Rightarrow> py_exception + pyobject) option"
  predict_proba :: "(vec \<Rightarrow> py_exception + real list) option"

record vectorizer_obj =
  transform :: "(string \<Rightarrow> py_exception + vec) option"
  has_fit_transform :: bool

record label_encoder_obj =
  inverse_transform :: "(pyobject \<Rightarrow> py_exception + string) option"
  classes :: "string list option"

type_synonym textblob = "string \<Rightarrow> py_exception + real"
  \<comment> \<open>\<open>TextBlob(text).sentiment.polarity\<close>, an external library\<close>

definition py_max :: "real list \<Rightarrow> py_exception + real" where
  \<comment> \<open>\<open>max(probabilities)\<close>\<close>
  "py_max xs = (case xs of [] \<Rightarrow> Inl (PyException ''ValueError'') | x # rest \<Rightarrow> Inr (fold max rest x))"

section \<open>\<open>EmotionDetector\<close> of \<open>emotion_detector.py\<close>\<close>

record detector =
  model :: "classifier option"
  vectorizer :: "vectorizer_obj option"
  label_encoder :: "label_encoder_obj option"
  emotion_labels :: "string list"

definition default_emotion_labels :: "string list" where
  "default_emotion_labels =
     [''joy'', ''sadness'', ''anger'', ''fear'', ''surprise'', ''love'', ''neutral'']"

definition load_models ::
  "classifier option \<Rightarrow> vectorizer_obj option \<Rightarrow> label_encoder_obj option \<Rightarrow> detector" where
  \<comment> \<open>\<open>EmotionDetector.__init__\<close> and \<open>load_models\<close>. The three arguments are the outcomes
      of the three file-search loops: \<open>Some\<close> artifact when a candidate file was found and
      unpickled, \<open>None\<close> otherwise.\<close>
  "load_models loaded_model loaded_vectorizer loaded_label_encoder =
     (if loaded_model = None \<or> loaded_vectorizer = None then
        \<lparr>model = None, vectorizer = None, label_encoder = None,
         emotion_labels = default_emotion_labels\<rparr>
      else
        \<lparr>model = (case loaded_model of
                    None \<Rightarrow> None
                  | Some m \<Rightarrow> if predict m \<noteq> None \<or> predict_proba m \<noteq> None then Some m else None),
         vectorizer = (case loaded_vectorizer of
                    None \<Rightarrow> None
                  | Some v \<Rightarrow> if transform v \<noteq> None \<or> has_fit_transform v then Some v else None),
         label_encoder = loaded_label_encoder,
         emotion_labels = (case loaded_label_encoder of
                    None \<Rightarrow> default_emotion_labels
                  | Some le \<Rightarrow> (case classes le of
                                 None \<Rightarrow> default_emotion_labels
                               | Some cs \<Rightarrow> cs))\<rparr>)"

definition get_sentiment_score :: "textblob \<Rightarrow> string \<Rightarrow> real" where
  "get_sentiment_score tb text = (case tb text of Inl e \<Rightarrow> 0.0 | Inr polarity \<Rightarrow> polarity)"

definition fallback_detection :: "textblob \<Rightarrow> string \<Rightarrow> string \<times> real \<times> real" where
  \<comment> \<open>\<open>EmotionDetector._fallback_detection\<close>\<close>
  "fallback_detection tb text =
     (let (detected_emotion, confidence) = keyword_detection text;
          sentiment_score = get_sentiment_score tb text
      in (detected_emotion, confidence, sentiment_score))"

definition decode_prediction :: "detector \<Rightarrow> pyobject \<Rightarrow> py_exception + string" where
  \<comment> \<open>The index into \<open>emotion_labels\<close>, else \<open>str(prediction_encoded)\<close>.\<close>
  "decode_prediction d p =
     (if is_number p then
        bind_exn (int_value p) (\<lambda>i.
          if 0 \<le> i \<and> i < int (length (emotion_labels d))
          then Inr (emotion_labels d ! nat i)
          else Inr (str_value p))
      else Inr (str_value p))"

definition predict_with_model_try ::
  "textblob \<Rightarrow> detector \<Rightarrow> string \<Rightarrow> py_exception + (string \<times> real \<times> real)" where
  \<comment> \<open>The \<open>try\<close> block of \<open>_predict_with_model\<close>.\<close>
  "predict_with_model_try tb d text =
     bind_exn (case vectorizer d of
                 None \<Rightarrow> Inl (PyException ''AttributeError'')
               | Some v \<Rightarrow> call_method (transform v) text) (\<lambda>text_vector.
     bind_exn (case model d of
                 None \<Rightarrow> Inl (PyException ''AttributeError'')
               | Some m \<Rightarrow> call_method (predict m) text_vector) (\<lambda>prediction_encoded.
     bind_exn (case model d of
                 None \<Rightarrow> Inl (PyException ''AttributeError'')
               | Some m \<Rightarrow> call_method (predict_proba m) text_vector) (\<lambda>probabilities.
     bind_exn (py_max probabilities) (\<lambda>confidence.
     bind_exn (case label_encoder d of
                 None \<Rightarrow> decode_prediction d prediction_encoded
               | Some le \<Rightarrow>
                   (case inverse_transform le of
                      None \<Rightarrow> decode_prediction d prediction_encoded
                    | Some f \<Rightarrow>
                        (case f prediction_encoded of
                           Inr label \<Rightarrow> Inr label
                         | Inl e \<Rightarrow> decode_prediction d prediction_encoded))) (\<lambda>prediction.
     Inr (prediction, confidence, get_sentiment_score tb text))))))"

definition predict_with_model ::
  "textblob \<Rightarrow> detector \<Rightarrow> string \<Rightarrow> py_exception + (string \<times> real \<times> real)" where
  \<comment> \<open>\<open>_predict_with_model\<close>: \<open>except Exception\<close> returns the keyword fallback.\<close>
  "predict_with_model tb d text =
     (case predict_with_model_try tb d text of
        Inr r \<Rightarrow> Inr r
      | Inl e \<Rightarrow> Inr (fallback_detection tb text))"

definition detect_emotion ::
  "textblob \<Rightarrow> detector \<Rightarrow> string \<Rightarrow> py_exception + (string \<times> real \<times> real)" where
  "detect_emotion tb d text =
     (if text = [] \<or> strip text = [] then Inr (''neutral'', 0.5, 0.0)
      else
        (case (if model d \<noteq> None \<and> vectorizer d \<noteq> None
               then predict_with_model tb d text
               else Inr (fallback_detection tb text)) of
           Inr r \<Rightarrow> Inr r
         | Inl e \<Rightarrow> Inr (''neutral'', 0.5, 0.0)))"

definition calculate_intensity :: "string \<Rightarrow> real \<Rightarrow> real \<Rightarrow> real" where
  "calculate_intensity emotion confidence sentiment_score =
     (let base_intensity = confidence;
          intensity =
            (if emotion \<in> set [''joy'', ''love'']
             then base_intensity * (1 + sentiment_score * 0.5)
             else if emotion \<in> set [''sadness'', ''anger'', ''fear'']
             then base_intensity * (1 - sentiment_score * 0.5)
             else base_intensity)
      in max 0.0 (min 1.0 intensity))"

section \<open>\<open>EmotionDetector\<close> of \<open>ml_utils.py\<close>\<close>

record ml_detector =
  ml_model :: "classifier option"
  ml_vectorizer :: "vectorizer_obj option"
  ml_label_encoder :: "label_encoder_obj option"
  is_loaded :: bool

definition predict_emotion_try :: "ml_detector \<Rightarrow> string \<Rightarrow> py_exception + (string \<times> real)" where
  \<comment> \<open>The trained-model branch of \<open>predict_emotion\<close>; \<open>text\<close> is already stripped and
      lower-cased.\<close>
  "predict_emotion_try d text =
     bind_exn (case ml_vectorizer d of
                 None \<Rightarrow> Inl (PyException ''AttributeError'')
               | Some v \<Rightarrow> call_method (transform v) text) (\<lambda>text_vector.
     bind_exn (case ml_model d of
                 None \<Rightarrow> Inl (PyException ''AttributeError'')
               | Some m \<Rightarrow> call_method (predict m) text_vector) (\<lambda>prediction.
     bind_exn (case ml_model d of
                 None \<Rightarrow> Inl (PyException ''AttributeError'')
               | Some m \<Rightarrow> call_method (predict_proba m) text_vector) (\<lambda>probabilities.
     bind_exn (case ml_label_encoder d of
                 None \<Rightarrow> Inl (PyException ''AttributeError'')
               | Some le \<Rightarrow> call_method (inverse_transform le) prediction) (\<lambda>emotion.
     bind_exn (py_max probabilities) (\<lambda>confidence.
     Inr (emotion, confidence))))))"

definition predict_emotion :: "ml_detector \<Rightarrow> string \<Rightarrow> py_exception + (string \<times> real)" where
  "predict_emotion d text0 =
     (if \<not> is_loaded d \<or> strip text0 = [] then Inr (fallback_emotion_detection text0)
      else
        let text = lower (strip text0)
        in (case (if ml_vectorizer d \<noteq> None \<and> ml_model d \<noteq> None \<and> ml_label_encoder d \<noteq> None
                  then predict_emotion_try d text
                  else Inr (fallback_emotion_detection text)) of
              Inr r \<Rightarrow> Inr r
            | Inl e \<Rightarrow> Inr (fallback_emotion_detection text)))"

section \<open>Python floats\<close>

text \<open>
  The percentages and shares of the analytics views are quotients of integers, computed in
  binary64 floating point. A float is modelled by the real number it denotes, and an
  operation rounds its exact result to the nearest float, ties to the even significand.
  Gradual underflow is modelled; overflow is not, the values rounded here being at most 100.
  Sums and averages of stored floats are kept exact: no statement below depends on how
  they are rounded.
\<close>

definition round_half_even :: "real \<Rightarrow> int" where
  "round_half_even x =
     (let f = \<lfloor>x\<rfloor>; d = x - of_int f
      in if d < 1 / 2 then f else if d > 1 / 2 then f + 1 else if even f then f else f + 1)"

fun bit_length :: "nat \<Rightarrow> nat" where
  \<comment> \<open>\<open>int.bit_length\<close>\<close>
  "bit_length n = (if n = 0 then 0 else Suc (bit_length (n div 2)))"

definition float_exponent :: "real \<Rightarrow> int" where
  \<comment> \<open>The integer \<open>e\<close> with \<open>2 ^ e \<le> |x| < 2 ^ (e + 1)\<close>, for \<open>x\<close> other than 0.\<close>
  "float_exponent x =
     (let a = \<bar>x\<bar>
      in if 1 \<le> a then int (bit_length (nat \<lfloor>a\<rfloor>)) - 1
         else - int (bit_length (nat \<lceil>1 / a\<rceil> - 1)))"

definition fl64 :: "real \<Rightarrow> real" where
  \<comment> \<open>Rounding to binary64: 53 significant bits, least exponent \<open>-1022\<close>.\<close>
  "fl64 x =
     (if x = 0 then 0
      else
        let e = max (float_exponent x) (- 1022);
            quantum = 2 powi (e - 52)
        in of_int (round_half_even (x / quantum)) * quantum)"

section \<open>Stored records and the lookback query\<close>

text \<open>
  Only the columns read by the analytics code are kept. A nullable column is an
  \<open>option\<close>. A timestamp is a naive UTC \<open>datetime\<close>, modelled as its number of microseconds
  since the epoch; \<open>datetime\<close> values range from year 1 to year 9999, and a \<open>timedelta\<close> holds
  fewer than \<open>10 ^ 9\<close> days. Outside these ranges the constructor and the subtraction raise.
\<close>

record emotion_history =
  eh_user_id :: int
  eh_emotion :: string
  eh_confidence :: real
  eh_sentiment_score :: "real option"
  eh_intensity :: "real option"
  eh_timestamp :: int

record conversation =
  cv_user_id :: int
  cv_is_user_message :: bool
  cv_emotion :: "string option"
  cv_sentiment_score :: "real option"
  cv_timestamp :: int

definition datetime_min :: int where
  \<comment> \<open>\<open>datetime.min\<close>, 0001-01-01 00:00:00\<close>
  "datetime_min = - 62135596800000000"

definition datetime_max :: int where
  \<comment> \<open>\<open>datetime.max\<close>, 9999-12-31 23:59:59.999999\<close>
  "datetime_max = 253402300799999999"

definition timedelta_days :: "int \<Rightarrow> py_exception + int" where
  \<comment> \<open>\<open>timedelta(days=days)\<close>, in microseconds\<close>
  "timedelta_days days =
     (if \<bar>days\<bar> \<le> 999999999 then Inr (days * 86400000000)
      else Inl (PyException ''OverflowError''))"

definition datetime_sub :: "int \<Rightarrow> int \<Rightarrow> py_exception + int" where
  \<comment> \<open>\<open>datetime - timedelta\<close>\<close>
  "datetime_sub t delta =
     (if datetime_min \<le> t - delta \<and> t - delta \<le> datetime_max then Inr (t - delta)
      else Inl (PyException ''OverflowError''))"

definition cutoff_date :: "int \<Rightarrow> int \<Rightarrow> py_exception + int" where
  \<comment> \<open>\<open>datetime.utcnow() - timedelta(days=days)\<close>, with \<open>now\<close> the value of \<open>utcnow()\<close>\<close>
  "cutoff_date now days = bind_exn (timedelta_days days) (datetime_sub now)"

definition date_of :: "int \<Rightarrow> int" where
  \<comment> \<open>\<open>timestamp.date()\<close>, as a day number\<close>
  "date_of timestamp = timestamp div 86400000000"

definition query_emotion_history ::
  "emotion_history list \<Rightarrow> int \<Rightarrow> int \<Rightarrow> int \<Rightarrow> py_exception + emotion_history list" where
  \<comment> \<open>The cutoff and the query every method of \<open>EmotionAnalytics\<close> starts with.\<close>
  "query_emotion_history db user_id now days =
     bind_exn (cutoff_date now days) (\<lambda>cutoff.
       Inr (filter (\<lambda>r. eh_user_id r = user_id \<and> eh_timestamp r \<ge> cutoff) db))"

definition query_conversation_emotions ::
  "conversation list \<Rightarrow> int \<Rightarrow> int \<Rightarrow> int \<Rightarrow> py_exception + string list" where
  \<comment> \<open>The cutoff and the query of the analytics routes: \<open>Conversation.emotion\<close> of the
      user's own messages in the window, where the emotion is not NULL.\<close>
  "query_conversation_emotions db user_id now days =
     bind_exn (cutoff_date now days) (\<lambda>cutoff.
       Inr (List.map_filter
              (\<lambda>c. if cv_user_id c = user_id \<and> cv_is_user_message c \<and> cv_timestamp c \<ge> cutoff
                    then cv_emotion c else None) db))"

definition query_conversations ::
  "conversation list \<Rightarrow> int \<Rightarrow> int \<Rightarrow> int \<Rightarrow> py_exception + conversation list" where
  \<comment> \<open>The cutoff and the query of the summary route: the user's own messages in the
      window.\<close>
  "query_conversations db user_id now days =
     bind_exn (cutoff_date now days) (\<lambda>cutoff.
       Inr (filter (\<lambda>c. cv_user_id c = user_id \<and> cv_is_user_message c \<and>
                         cv_timestamp c \<ge> cutoff) db))"

section \<open>\<open>collections.Counter\<close>\<close>

fun counter_add :: "string \<Rightarrow> (string \<times> nat) list \<Rightarrow> (string \<times> nat) list" where
  \<comment> \<open>One more occurrence of a key; a new key goes last, as in a dict.\<close>
  "counter_add x [] = [(x, 1)]"
| "counter_add x ((k, c) # rest) =
     (if k = x then (k, c + 1) # rest else (k, c) # counter_add x rest)"

definition Counter :: "string list \<Rightarrow> (string \<times> nat) list" where
  \<comment> \<open>The items of \<open>Counter(xs)\<close>, in first-occurrence order.\<close>
  "Counter xs = foldl (\<lambda>counts x. counter_add x counts) [] xs"

definition most_common_1 :: "(string \<times> nat) list \<Rightarrow> py_exception + (string \<times> nat)" where
  \<comment> \<open>\<open>counts.most_common(1)[0]\<close>: the first item of greatest count; on an empty counter
      the index raises.\<close>
  "most_common_1 counts =
     (case counts of
        [] \<Rightarrow> Inl (PyException ''IndexError'')
      | first # rest \<Rightarrow> Inr (py_max_key snd first rest))"

definition py_div :: "real \<Rightarrow> real \<Rightarrow> py_exception + real" where
  "py_div a b = (if b = 0 then Inl (PyException ''ZeroDivisionError'') else Inr (a / b))"

section \<open>\<open>EmotionAnalytics\<close> of \<open>analytics.py\<close>\<close>

definition get_emotion_distribution ::
  "emotion_history list \<Rightarrow> int \<Rightarrow> int \<Rightarrow> int \<Rightarrow> py_exception + (string \<times> real) list" where
  "get_emotion_distribution db user_id now days =
     bind_exn (query_emotion_history db user_id now days) (\<lambda>emotions.
       if emotions = [] then Inr []
       else
         let emotion_counts = Counter (map eh_emotion emotions);
             total_count = sum_list (map snd emotion_counts)
         in Inr (map (\<lambda>(emotion, count).
                        (emotion, fl64 (fl64 (real count / real total_count) * 100)))
                   emotion_counts))"

definition emotion_categories :: "(string \<times> string list) list" where
  "emotion_categories =
     [(''Positive'', [''joy'', ''love'', ''surprise'']),
      (''Negative'', [''sadness'', ''anger'', ''fear'']),
      (''Neutral'', [''neutral''])]"

definition intensity_or_default :: "real option \<Rightarrow> real" where
  \<comment> \<open>\<open>emotion.intensity or 0.5\<close>: \<open>None\<close> and \<open>0.0\<close> are both falsy.\<close>
  "intensity_or_default i = (case i of None \<Rightarrow> 0.5 | Some x \<Rightarrow> if x = 0 then 0.5 else x)"

definition category_scores_of :: "emotion_history list \<Rightarrow> string list \<Rightarrow> real list" where
  \<comment> \<open>The inner loop of \<open>get_emotional_balance\<close> that fills \<open>scores\<close>.\<close>
  "category_scores_of emotions emotion_list =
     map (\<lambda>emotion. intensity_or_default (eh_intensity emotion))
       (filter (\<lambda>emotion. eh_emotion emotion \<in> set emotion_list) emotions)"

definition get_emotional_balance ::
  "emotion_history list \<Rightarrow> int \<Rightarrow> int \<Rightarrow> int \<Rightarrow> py_exception + (string \<times> real) list" where
  "get_emotional_balance db user_id now days =
     bind_exn (query_emotion_history db user_id now days) (\<lambda>emotions.
       if emotions = [] then Inr []
       else
         Inr (map (\<lambda>(category, emotion_list).
                     let scores = category_scores_of emotions emotion_list
                     in (category,
                         if scores \<noteq> [] then sum_list scores / real (length scores) else 0))
                emotion_categories))"

record summary_stats =
  total_entries :: nat
  most_common_emotion :: string
  average_sentiment :: real
  days_tracked :: nat

definition get_summary_stats ::
  "(real \<Rightarrow> nat \<Rightarrow> real) \<Rightarrow> emotion_history list \<Rightarrow> int \<Rightarrow> int \<Rightarrow> int
     \<Rightarrow> py_exception + summary_stats" where
  \<comment> \<open>The first argument is Python's builtin \<open>round(x, ndigits)\<close>.\<close>
  "get_summary_stats py_round db user_id now days =
     bind_exn (query_emotion_history db user_id now days) (\<lambda>emotions.
       if emotions = [] then
         Inr \<lparr>total_entries = 0, most_common_emotion = ''N/A'',
              average_sentiment = 0, days_tracked = 0\<rparr>
       else
         let emotion_counts = Counter (map eh_emotion emotions)
         in bind_exn (if emotion_counts \<noteq> [] then most_common_1 emotion_counts
                      else Inr (''N/A'', 0)) (\<lambda>most_common.
            let sentiment_scores = List.map_filter eh_sentiment_score emotions
            in bind_exn (if sentiment_scores \<noteq> []
                         then py_div (sum_list sentiment_scores)
                                (real (length sentiment_scores))
                         else Inr 0) (\<lambda>avg_sentiment.
               let unique_dates =
                     length (remdups (map (\<lambda>e. date_of (eh_timestamp e)) emotions))
               in Inr \<lparr>total_entries = length emotions,
                       most_common_emotion = fst most_common,
                       average_sentiment = py_round avg_sentiment 3,
                       days_tracked = unique_dates\<rparr>)))"

section \<open>The analytics routes of \<open>routes.py\<close>\<close>

definition emotion_distribution ::
  "conversation list \<Rightarrow> int \<Rightarrow> int \<Rightarrow> int \<Rightarrow> py_exception + (string \<times> real) list" where
  "emotion_distribution db current_user now days =
     bind_exn (query_conversation_emotions db current_user now days) (\<lambda>emotions.
       if emotions = [] then Inr []
       else
         let emotion_counts = Counter emotions;
             total = sum_list (map snd emotion_counts)
         in Inr (map (\<lambda>(emotion, count).
                        (emotion, fl64 (fl64 (real count / real total) * 100)))
                   emotion_counts))"

definition emotional_balance ::
  "conversation list \<Rightarrow> int \<Rightarrow> int \<Rightarrow> int \<Rightarrow> py_exception + (string \<times> real) list" where
  "emotional_balance db current_user now days =
     bind_exn (query_conversation_emotions db current_user now days) (\<lambda>emotions.
       if emotions = [] then Inr []
       else
         let emotion_counts = Counter emotions;
             total = sum_list (map snd emotion_counts)
         in Inr (map (\<lambda>(emotion, count). (emotion, fl64 (real count / real total)))
                   emotion_counts))"

definition analytics_summary ::
  "conversation list \<Rightarrow> int \<Rightarrow> int \<Rightarrow> int \<Rightarrow> py_exception + summary_stats" where
  "analytics_summary db current_user now days =
     bind_exn (query_conversations db current_user now days) (\<lambda>conversations.
       let total_entries = length conversations;
           emotions = List.map_filter
                        (\<lambda>c. case cv_emotion c of
                                None \<Rightarrow> None
                              | Some e \<Rightarrow> if e \<noteq> [] then Some e else None) conversations
       in bind_exn (if emotions \<noteq> []
                    then bind_exn (most_common_1 (Counter emotions)) (\<lambda>item. Inr (fst item))
                    else Inr ''neutral'') (\<lambda>most_common_emotion.
          let sentiments = List.map_filter cv_sentiment_score conversations
          in bind_exn (if sentiments \<noteq> []
                       then py_div (sum_list sentiments) (real (length sentiments))
                       else Inr 0.0) (\<lambda>average_sentiment.
             let days_tracked =
                   length (remdups (map (\<lambda>c. date_of (cv_timestamp c)) conversations))
             in Inr \<lparr>total_entries = total_entries,
                     most_common_emotion = most_common_emotion,
                     average_sentiment = average_sentiment,
                     days_tracked = days_tracked\<rparr>)))"

section \<open>Notions of the specification\<close>

text \<open>
  The definitions of this section follow the wording of the specification, not the code;
  the theorems below compare the code with them.
\<close>

definition first_reaching :: "(string \<times> string list) list \<Rightarrow> string \<Rightarrow> nat \<Rightarrow> string option" where
  "first_reaching table text m =
     map_option fst (find (\<lambda>(emotion, keywords). keyword_score keywords text = m) table)"

definition tie_at_max :: "(string \<times> nat) list \<Rightarrow> nat \<Rightarrow> bool" where
  "tie_at_max scores m =
     ((\<forall>(emotion, score) \<in> set scores. score \<le> m)
      \<and> 2 \<le> length (filter (\<lambda>(emotion, score). score = m) scores))"


definition intensity_formula :: "string \<Rightarrow> real \<Rightarrow> real \<Rightarrow> real" where
  "intensity_formula emotion confidence sentiment =
     (if emotion = ''joy'' \<or> emotion = ''love'' then confidence * (1 + sentiment * 0.5)
      else if emotion = ''sadness'' \<or> emotion = ''anger'' \<or> emotion = ''fear''
      then confidence * (1 - sentiment * 0.5)
      else confidence)"

definition clamp01 :: "real \<Rightarrow> real" where
  "clamp01 x = (if x < 0 then 0 else if x > 1 then 1 else x)"

definition label_of :: "py_exception + (string \<times> 'a) \<Rightarrow> string option" where
  "label_of r = (case r of Inl e \<Rightarrow> None | Inr reading \<Rightarrow> Some (fst reading))"

definition empty_summary :: summary_stats where
  "empty_summary =
     \<lparr>total_entries = 0, most_common_emotion = ''N/A'', average_sentiment = 0, days_tracked = 0\<rparr>"

definition maps_each_emotion ::
  "(nat \<Rightarrow> nat \<Rightarrow> real) \<Rightarrow> string list \<Rightarrow> (string \<times> real) list \<Rightarrow> bool" where
  \<comment> \<open>The keys are exactly the emotions that occur, each mapped to its share, a function
      of its count and of the total.\<close>
  "maps_each_emotion share emotions shares =
     (distinct (map fst shares) \<and> set (map fst shares) = set emotions
      \<and> (\<forall>e \<in> set emotions.
            map_of shares e = Some (share (count_list emotions e) (length emotions))))"

definition float_percentage :: "nat \<Rightarrow> nat \<Rightarrow> real" where
  \<comment> \<open>\<open>(count / total) * 100\<close> in floating point\<close>
  "float_percentage count total_count = fl64 (fl64 (real count / real total_count) * 100)"

definition float_share :: "nat \<Rightarrow> nat \<Rightarrow> real" where
  \<comment> \<open>\<open>count / total\<close> in floating point\<close>
  "float_share count total_count = fl64 (real count / real total_count)"

definition unit_roundoff :: real where
  "unit_roundoff = 2 powi (- 53)"

definition percentage_tolerance :: real where
  \<comment> \<open>about \<open>2.3e-14\<close>\<close>
  "percentage_tolerance = 100 * (2 * unit_roundoff + unit_roundoff ^ 2)"

definition counted_intensity :: "emotion_history \<Rightarrow> real" where
  \<comment> \<open>The stored intensity, a missing or zero one counted as 0.5.\<close>
  "counted_intensity r =
     (case eh_intensity r of None \<Rightarrow> 0.5 | Some x \<Rightarrow> if x = 0 then 0.5 else x)"

definition average_intensity :: "emotion_history list \<Rightarrow> real" where
  "average_intensity rs =
     (if rs = [] then 0 else sum_list (map counted_intensity rs) / real (length rs))"

section \<open>Concrete artifacts and records\<close>

text \<open>Small inputs on which the theorems below are instantiated.\<close>

definition sample_textblob :: textblob where
  "sample_textblob = (\<lambda>text. Inr 0.5)"

definition sample_vectorizer :: vectorizer_obj where
  "sample_vectorizer =
     \<lparr>transform = Some (\<lambda>text. Inr [real (length text)]), has_fit_transform = True\<rparr>"


definition disgust_classifier :: classifier where
  "disgust_classifier =
     \<lparr>predict = Some (\<lambda>v. Inr \<lparr>is_number = False,
                                 int_value = Inl (PyException ''ValueError''),
                                 str_value = ''disgust''\<rparr>),
      predict_proba = Some (\<lambda>v. Inr [0.9, 0.1])\<rparr>"

definition disgust_encoder :: label_encoder_obj where
  "disgust_encoder =
     \<lparr>inverse_transform = Some (\<lambda>p. Inr (str_value p)),
      classes = Some [''anger'', ''disgust'', ''fear'', ''joy'', ''sadness'', ''surprise'']\<rparr>"

definition unloaded_ml_detector :: ml_detector where
  "unloaded_ml_detector =
     \<lparr>ml_model = None, ml_vectorizer = None, ml_label_encoder = None, is_loaded = False\<rparr>"

definition disgust_ml_detector :: ml_detector where
  "disgust_ml_detector =
     \<lparr>ml_model = Some disgust_classifier, ml_vectorizer = Some sample_vectorizer,
      ml_label_encoder = Some disgust_encoder, is_loaded = True\<rparr>"



definition sample_now :: int where
  \<comment> \<open>2023-11-14 22:13:20\<close>
  "sample_now = 1700000000000000"

definition sample_history :: "emotion_history list" where
  \<comment> \<open>Three records of user 1 in the last 30 days, one of user 2, one of user 1 from 2020.\<close>
  "sample_history =
     [\<lparr>eh_user_id = 1, eh_emotion = ''joy'', eh_confidence = 0.7,
       eh_sentiment_score = Some 0.5, eh_intensity = Some 0.8,
       eh_timestamp = 1699000000000000\<rparr>,
      \<lparr>eh_user_id = 1, eh_emotion = ''joy'', eh_confidence = 0.5,
       eh_sentiment_score = None, eh_intensity = None,
       eh_timestamp = 1699100000000000\<rparr>,
      \<lparr>eh_user_id = 2, eh_emotion = ''anger'', eh_confidence = 0.5,
       eh_sentiment_score = Some 0, eh_intensity = Some 0.5,
       eh_timestamp = 1699200000000000\<rparr>,
      \<lparr>eh_user_id = 1, eh_emotion = ''sadness'', eh_confidence = 0.5,
       eh_sentiment_score = Some (- 0.5), eh_intensity = Some 0.4,
       eh_timestamp = 1699300000000000\<rparr>,
      \<lparr>eh_user_id = 1, eh_emotion = ''anger'', eh_confidence = 0.5,
       eh_sentiment_score = Some (- 0.5), eh_intensity = Some 0.6,
       eh_timestamp = 1600000000000000\<rparr>]"

definition sample_window :: "emotion_history list" where
  \<comment> \<open>The records of user 1 in \<open>sample_history\<close> that are at most 30 days old.\<close>
  "sample_window =
     [\<lparr>eh_user_id = 1, eh_emotion = ''joy'', eh_confidence = 0.7,
       eh_sentiment_score = Some 0.5, eh_intensity = Some 0.8,
       eh_timestamp = 1699000000000000\<rparr>,
      \<lparr>eh_user_id = 1, eh_emotion = ''joy'', eh_confidence = 0.5,
       eh_sentiment_score = None, eh_intensity = None,
       eh_timestamp = 1699100000000000\<rparr>,
      \<lparr>eh_user_id = 1, eh_emotion = ''sadness'', eh_confidence = 0.5,
       eh_sentiment_score = Some (- 0.5), eh_intensity = Some 0.4,
       eh_timestamp = 1699300000000000\<rparr>]"

definition zero_intensity_history :: "emotion_history list" where
  "zero_intensity_history =
     [\<lparr>eh_user_id = 1, eh_emotion = ''joy'', eh_confidence = 0.5,
       eh_sentiment_score = Some 0, eh_intensity = Some 0,
       eh_timestamp = 1699000000000000\<rparr>]"

definition sample_conversations :: "conversation list" where
  "sample_conversations =
     [\<lparr>cv_user_id = 1, cv_is_user_message = True, cv_emotion = Some ''joy'',
       cv_sentiment_score = Some 0.5, cv_timestamp = 1699000000000000\<rparr>,
      \<lparr>cv_user_id = 1, cv_is_user_message = False, cv_emotion = None,
       cv_sentiment_score = None, cv_timestamp = 1699000001000000\<rparr>,
      \<lparr>cv_user_id = 1, cv_is_user_message = True, cv_emotion = Some ''joy'',
       cv_sentiment_score = None, cv_timestamp = 1699100000000000\<rparr>,
      \<lparr>cv_user_id = 1, cv_is_user_message = True, cv_emotion = Some ''sadness'',
       cv_sentiment_score = Some (- 0.5), cv_timestamp = 1699300000000000\<rparr>]"

section \<open>Helper lemmas\<close>

lemma py_max_key_in: "py_max_key key b xs \<in> set (b # xs)"
  by (induction xs arbitrary: b) (auto split: if_splits)

lemma py_max_key_ge_all: "\<forall>y \<in> set (b # xs). key y \<le> key (py_max_key key b xs)"
proof (induction xs arbitrary: b)
  case Nil
  then show ?case by simp
next
  case (Cons x xs)
  show ?case
  proof (cases "key x > key b")
    case True
    with Cons.IH [of x] show ?thesis by (auto dest: le_trans less_imp_le_nat)
  next
    case False
    with Cons.IH [of b] show ?thesis by (auto dest: le_trans)
  qed
qed

lemma py_max_key_ge: "y \<in> set (b # xs) \<Longrightarrow> key y \<le> key (py_max_key key b xs)"
  by (rule bspec [OF py_max_key_ge_all])

lemma py_max_key_split:
  "\<exists>ys zs. b # xs = ys @ py_max_key key b xs # zs
          \<and> (\<forall>y \<in> set ys. key y < key (py_max_key key b xs))"
proof (induction xs arbitrary: b)
  case Nil
  show ?case by (rule exI [of _ "[]"]) simp
next
  case (Cons x xs)
  show ?case
  proof (cases "key x > key b")
    case True
    from Cons.IH [of x] obtain ys zs where
      s: "x # xs = ys @ py_max_key key x xs # zs"
      and l: "\<forall>y \<in> set ys. key y < key (py_max_key key x xs)" by blast
    have "key x \<le> key (py_max_key key x xs)" by (rule py_max_key_ge) simp
    with True have kb: "key b < key (py_max_key key x xs)" by simp
    have r: "py_max_key key b (x # xs) = py_max_key key x xs" using True by simp
    have "b # x # xs = (b # ys) @ py_max_key key x xs # zs" using s by simp
    moreover have "\<forall>y \<in> set (b # ys). key y < key (py_max_key key x xs)"
      using l kb by simp
    ultimately show ?thesis unfolding r by blast
  next
    case False
    from Cons.IH [of b] obtain ys zs where
      s: "b # xs = ys @ py_max_key key b xs # zs"
      and l: "\<forall>y \<in> set ys. key y < key (py_max_key key b xs)" by blast
    show ?thesis
    proof (cases ys)
      case Nil
      with s have "b = py_max_key key b xs" by auto
      then have "py_max_key key b xs = b" by (rule sym)
      with False have "b # x # xs = [] @ py_max_key key b (x # xs) # (x # xs)
          \<and> (\<forall>y \<in> set []. key y < key (py_max_key key b (x # xs)))" by simp
      then show ?thesis by blast
    next
      case (Cons y ys')
      with s have yb: "y = b" and xs: "xs = ys' @ py_max_key key b xs # zs" by auto
      from l Cons yb have kb: "key b < key (py_max_key key b xs)" by simp
      with False have kx: "key x < key (py_max_key key b xs)" by simp
      have r: "py_max_key key b (x # xs) = py_max_key key b xs" using False by simp
      have "b # x # xs = (b # x # ys') @ py_max_key key b xs # zs" using xs by simp
      moreover have "\<forall>y \<in> set (b # x # ys'). key y < key (py_max_key key b xs)"
        using l Cons kb kx by simp
      ultimately show ?thesis unfolding r by blast
    qed
  qed
qed

lemma find_split:
  "(\<forall>y \<in> set ys. \<not> P y) \<Longrightarrow> P r \<Longrightarrow> find P (ys @ r # zs) = Some r"
  by (induction ys) auto

lemma py_max_key_find:
  assumes "(e, m) \<in> set (b # xs)" and "\<forall>z \<in> set (b # xs). snd z \<le> m"
  shows "find (\<lambda>z. snd z = m) (b # xs) = Some (py_max_key snd b xs)"
proof -
  let ?r = "py_max_key snd b xs"
  have "?r \<in> set (b # xs)" by (rule py_max_key_in)
  with assms(2) have "snd ?r \<le> m" by blast
  moreover from py_max_key_ge [OF assms(1), of snd] have "m \<le> snd ?r" by simp
  ultimately have m: "snd ?r = m" by simp
  obtain ys zs where s: "b # xs = ys @ ?r # zs"
    and l: "\<forall>y \<in> set ys. snd y < snd ?r"
    using py_max_key_split [of b xs snd] by blast
  from l m have "\<forall>y \<in> set ys. \<not> snd y = m" by auto
  then have "find (\<lambda>z. snd z = m) (ys @ ?r # zs) = Some ?r" using m by (rule find_split)
  with s show ?thesis by simp
qed

lemma find_build_scores:
  "0 < m \<Longrightarrow>
   map_option fst (find (\<lambda>z. snd z = m) (build_scores table text)) = first_reaching table text m"
  by (induction table) (auto simp: build_scores_def first_reaching_def)

lemma first_max_label:
  assumes "tie_at_max (build_scores table text) m"
      and "build_scores table text = first # rest"
  shows "first_reaching table text m = Some (fst (py_max_key snd first rest))"
proof -
  from assms(1) have "filter (\<lambda>(emotion, score). score = m) (build_scores table text) \<noteq> []"
    by (auto simp: tie_at_max_def)
  then obtain e where e: "(e, m) \<in> set (build_scores table text)"
    by (auto simp: filter_empty_conv)
  then have pos: "0 < m" by (auto simp: build_scores_def)
  from assms(1) have le: "\<forall>z \<in> set (first # rest). snd z \<le> m"
    by (auto simp: tie_at_max_def assms(2))
  from e have "(e, m) \<in> set (first # rest)" by (simp add: assms(2))
  from py_max_key_find [OF this le]
  have "find (\<lambda>z. snd z = m) (build_scores table text) = Some (py_max_key snd first rest)"
    by (simp add: assms(2))
  with find_build_scores [OF pos, of table "text"] show ?thesis by simp
qed

lemma tie_nonempty: "tie_at_max scores m \<Longrightarrow> scores \<noteq> []"
  by (auto simp: tie_at_max_def)

lemma keyword_hit: "0 < keyword_score keywords text \<Longrightarrow> \<exists>k \<in> set keywords. py_in k text"
  by (auto simp: keyword_score_def filter_empty_conv)

lemma build_scores_Nil:
  "(build_scores table text = []) = (\<forall>k \<in> set (concat (map snd table)). \<not> py_in k text)"
  by (induction table) (auto simp: build_scores_def keyword_score_def filter_empty_conv)

lemma build_scores_hit:
  "(e, s) \<in> set (build_scores table text) \<Longrightarrow> \<exists>k \<in> set (concat (map snd table)). py_in k text"
proof -
  assume "(e, s) \<in> set (build_scores table text)"
  then have "build_scores table text \<noteq> []" by auto
  then show ?thesis by (simp add: build_scores_Nil)
qed

lemma py_in_set: "py_in k t \<Longrightarrow> set k \<subseteq> set t"
  by (induction t) (auto dest!: set_mono_prefix)

lemma isspace_lower_char: "isspace c \<Longrightarrow> lower_char c = c"
  by (auto simp: isspace_def lower_char_def Let_def)

lemma strip_Nil_iff: "strip s = [] \<longleftrightarrow> (\<forall>c \<in> set s. isspace c)"
proof
  assume "strip s = []"
  then have a: "\<forall>x \<in> set (dropWhile isspace s). isspace x"
    by (simp add: strip_def dropWhile_eq_Nil_conv)
  show "\<forall>c \<in> set s. isspace c"
  proof (rule ccontr)
    assume "\<not> (\<forall>c \<in> set s. isspace c)"
    then have ne: "dropWhile isspace s \<noteq> []" by (simp add: dropWhile_eq_Nil_conv)
    then have "\<not> isspace (hd (dropWhile isspace s))" by (rule hd_dropWhile)
    moreover from ne have "hd (dropWhile isspace s) \<in> set (dropWhile isspace s)" by simp
    ultimately show False using a by blast
  qed
next
  assume "\<forall>c \<in> set s. isspace c"
  then have d: "dropWhile isspace s = []" by (simp add: dropWhile_eq_Nil_conv)
  show "strip s = []" unfolding strip_def d by simp
qed

lemma hit_not_blank:
  assumes "py_in k (lower text)" and "k \<noteq> []" and "\<not> isspace (hd k)"
  shows "strip text \<noteq> []"
proof -
  from assms(2) have "hd k \<in> set k" by simp
  with py_in_set [OF assms(1)] have "hd k \<in> set (lower text)" by blast
  then obtain c where c: "c \<in> set text" "lower_char c = hd k"
    by (auto simp: lower_def)
  have "\<not> isspace c"
  proof
    assume "isspace c"
    with c isspace_lower_char have "c = hd k" by simp
    with \<open>isspace c\<close> assms(3) show False by simp
  qed
  with c show ?thesis by (auto simp: strip_Nil_iff)
qed

lemma ml_keywords_visible:
  "\<forall>k \<in> set (concat (map snd ml_emotion_keywords)). k \<noteq> [] \<and> \<not> isspace (hd k)"
  by (simp add: ml_emotion_keywords_def isspace_def)

lemma ml_hit_not_blank:
  assumes "(e, s) \<in> set (build_scores ml_emotion_keywords (lower text))"
  shows "strip text \<noteq> []"
proof -
  from build_scores_hit [OF assms] obtain k
    where k: "k \<in> set (concat (map snd ml_emotion_keywords))" "py_in k (lower text)" by blast
  with ml_keywords_visible have "k \<noteq> []" "\<not> isspace (hd k)" by blast+
  with k(2) show ?thesis by (rule hit_not_blank)
qed

lemma build_scores_mem:
  "(e, s) \<in> set (build_scores table text) \<Longrightarrow>
   \<exists>kws. (e, kws) \<in> set table \<and> s = keyword_score kws text \<and> 0 < s"
  by (auto simp: build_scores_def)










lemma fallback_labels:
  assumes "set (map fst table) \<subseteq> set default_emotion_labels"
      and "build_scores table text = first # rest"
  shows "fst (py_max_key snd first rest) \<in> set default_emotion_labels"
proof -
  let ?r = "py_max_key snd first rest"
  have "?r \<in> set (first # rest)" by (rule py_max_key_in)
  then have "(fst ?r, snd ?r) \<in> set (build_scores table text)" by (simp add: assms(2))
  from build_scores_mem [OF this] have "fst ?r \<in> set (map fst table)" by force
  with assms(1) show ?thesis by blast
qed

lemma keyword_detection_label: "fst (keyword_detection text) \<in> set default_emotion_labels"
proof (cases "build_scores emotion_keywords (lower text)")
  case Nil
  then show ?thesis by (simp add: keyword_detection_def default_emotion_labels_def)
next
  case (Cons first rest)
  have "set (map fst emotion_keywords) \<subseteq> set default_emotion_labels"
    by (simp add: emotion_keywords_def default_emotion_labels_def)
  from fallback_labels [OF this Cons] show ?thesis
    by (simp add: keyword_detection_def Cons Let_def)
qed

lemma fallback_emotion_detection_label:
  "fst (fallback_emotion_detection text) \<in> set default_emotion_labels"
proof (cases "build_scores ml_emotion_keywords (lower text)")
  case Nil
  then show ?thesis by (simp add: fallback_emotion_detection_def default_emotion_labels_def)
next
  case (Cons first rest)
  have "set (map fst ml_emotion_keywords) \<subseteq> set default_emotion_labels"
    by (simp add: ml_emotion_keywords_def default_emotion_labels_def)
  from fallback_labels [OF this Cons] show ?thesis
    by (simp add: fallback_emotion_detection_def Cons Let_def default_emotion_labels_def)
qed

lemma fallback_detection_label: "fst (fallback_detection tb text) \<in> set default_emotion_labels"
  using keyword_detection_label [of "text"]
  by (simp add: fallback_detection_def split_beta)

lemma neutral_label: "''neutral'' \<in> set default_emotion_labels"
  by (simp add: default_emotion_labels_def)

lemma counter_add_fst:
  "map fst (counter_add x c) = (if x \<in> fst ` set c then map fst c else map fst c @ [x])"
  by (induction c) force+

lemma counter_add_keys: "fst ` set (counter_add x c) = insert x (fst ` set c)"
proof -
  have "set (map fst (counter_add x c)) = insert x (set (map fst c))"
    unfolding counter_add_fst by auto
  then show ?thesis by simp
qed

lemma counter_add_distinct: "distinct (map fst c) \<Longrightarrow> distinct (map fst (counter_add x c))"
  unfolding counter_add_fst by auto

lemma counter_add_sum: "sum_list (map snd (counter_add x c)) = Suc (sum_list (map snd c))"
  by (induction c) auto

lemma counter_add_map_of:
  "map_of (counter_add x c) k =
     (if k = x then Some (case map_of c x of None \<Rightarrow> 1 | Some n \<Rightarrow> n + 1) else map_of c k)"
  by (induction c) auto

lemma Counter_snoc: "Counter (xs @ [x]) = counter_add x (Counter xs)"
  by (simp add: Counter_def)

lemma Counter_Nil: "Counter [] = []"
  by (simp add: Counter_def)

lemma Counter_keys: "fst ` set (Counter xs) = set xs"
  by (induction xs rule: rev_induct) (simp_all add: Counter_Nil Counter_snoc counter_add_keys)

lemma Counter_distinct: "distinct (map fst (Counter xs))"
  by (induction xs rule: rev_induct) (simp_all add: Counter_Nil Counter_snoc counter_add_distinct)

lemma Counter_sum: "sum_list (map snd (Counter xs)) = length xs"
  by (induction xs rule: rev_induct) (simp_all add: Counter_Nil Counter_snoc counter_add_sum)

lemma count_list_snoc: "count_list (xs @ [x]) k = count_list xs k + (if x = k then 1 else 0)"
  by (induction xs) auto

lemma count_list_zero: "k \<notin> set xs \<Longrightarrow> count_list xs k = 0"
  by (induction xs) auto

lemma Counter_map_of:
  "map_of (Counter xs) k = (if k \<in> set xs then Some (count_list xs k) else None)"
proof (induction xs rule: rev_induct)
  case Nil
  show ?case by (simp add: Counter_Nil)
next
  case (snoc x xs)
  show ?case
  proof (cases "k = x")
    case True
    with snoc show ?thesis
      by (simp add: Counter_snoc counter_add_map_of count_list_snoc count_list_zero)
  next
    case False
    with snoc show ?thesis
      by (simp add: Counter_snoc counter_add_map_of count_list_snoc)
  qed
qed

lemma scaled_keys: "map fst (map (\<lambda>(e, c). (e, g c)) cs) = map fst cs"
  by (induction cs) auto

lemma scaled_map_of: "map_of (map (\<lambda>(e, c). (e, g c)) cs) k = map_option g (map_of cs k)"
  by (induction cs) auto

declare bit_length.simps [simp del]

lemma bit_length_bounds: "0 < n \<Longrightarrow> 2 ^ (bit_length n - 1) \<le> n \<and> n < 2 ^ bit_length n"
proof (induction n rule: bit_length.induct)
  case (1 n)
  show ?case
  proof (cases "n div 2 = 0")
    case True
    with 1 have "n = 1" by (simp add: div_eq_0_iff) 
    then show ?thesis by (simp add: bit_length.simps)
  next
    case False
    then have p: "0 < n div 2" by simp
    from 1 have n: "n \<noteq> 0" by simp
    from "1.IH" [OF n p] have ih: "2 ^ (bit_length (n div 2) - 1) \<le> n div 2"
      "n div 2 < 2 ^ bit_length (n div 2)" by simp_all
    have bl: "bit_length n = Suc (bit_length (n div 2))" using n by (simp add: bit_length.simps)
    have pos: "0 < bit_length (n div 2)" using p by (simp add: bit_length.simps)
    then obtain k where k: "bit_length (n div 2) = Suc k" by (cases "bit_length (n div 2)") auto
    from ih k have "2 ^ k \<le> n div 2" "n div 2 < 2 ^ Suc k" by simp_all
    then have "2 * 2 ^ k \<le> n" "n < 2 * 2 ^ Suc k" by linarith+
    then show ?thesis by (simp add: bl k)
  qed
qed

lemma round_half_even_close: "\<bar>of_int (round_half_even x) - x\<bar> \<le> 1 / 2"
  unfolding round_half_even_def Let_def by (auto simp: abs_if) linarith+


lemma bit_length_pos: "0 < n \<Longrightarrow> 0 < bit_length n"
  by (simp add: bit_length.simps)

lemma float_exponent_bounds:
  assumes "x \<noteq> 0"
  shows "2 powi (float_exponent x) \<le> \<bar>x\<bar> \<and> \<bar>x\<bar> < 2 powi (float_exponent x + 1)"
proof (cases "1 \<le> \<bar>x\<bar>")
  case True
  define n where "n = nat \<lfloor>\<bar>x\<bar>\<rfloor>"
  from True have n1: "0 < n" by (simp add: n_def)
  have nle: "real n \<le> \<bar>x\<bar>" and nlt: "\<bar>x\<bar> < real n + 1"
    using True by (simp_all add: n_def)
  from bit_length_pos [OF n1] obtain k where k: "bit_length n = Suc k"
    by (cases "bit_length n") auto
  from bit_length_bounds [OF n1] k have b: "2 ^ k \<le> n" "n < 2 ^ Suc k" by simp_all
  have e: "float_exponent x = int k"
    using True by (simp add: float_exponent_def n_def [symmetric] k)
  from b(1) have "real (2 ^ k) \<le> real n" by (simp only: of_nat_le_iff)
  then have "(2::real) ^ k \<le> real n" by simp
  with nle have l: "(2::real) ^ k \<le> \<bar>x\<bar>" by linarith
  from b(2) have "real (Suc n) \<le> real (2 ^ Suc k)" by (simp only: of_nat_le_iff Suc_le_eq)
  then have "real n + 1 \<le> 2 ^ Suc k" by simp
  with nlt have u: "\<bar>x\<bar> < 2 ^ Suc k" by linarith
  have "int k + 1 = int (Suc k)" by simp
  then have p: "2 powi (int k + 1) = (2::real) ^ Suc k" by (simp only: power_int_of_nat)
  have p0: "2 powi (int k) = (2::real) ^ k" by (simp only: power_int_of_nat)
  from l u show ?thesis unfolding e p p0 by blast
next
  case False
  define a where "a = \<bar>x\<bar>"
  from assms False have a: "0 < a" "a < 1" by (simp_all add: a_def)
  define n where "n = nat \<lceil>1 / a\<rceil>"
  from a have y: "1 < 1 / a" by simp
  then have c2: "2 \<le> \<lceil>1 / a\<rceil>" by linarith
  have ni: "int n = \<lceil>1 / a\<rceil>" unfolding n_def using c2 by linarith
  with c2 have n2: "2 \<le> n" by linarith
  have rn: "real n = of_int \<lceil>1 / a\<rceil>"
    using ni by (metis of_int_of_nat_eq)
  have nge: "1 / a \<le> real n" unfolding rn by linarith
  have ngt: "real n - 1 < 1 / a" unfolding rn by linarith
  define m where "m = n - 1"
  from n2 have m1: "0 < m" and mn: "real m = real n - 1" by (simp_all add: m_def)
  from bit_length_pos [OF m1] obtain k where k: "bit_length m = Suc k"
    by (cases "bit_length m") auto
  from bit_length_bounds [OF m1] k have b: "2 ^ k \<le> m" "m < 2 ^ Suc k" by simp_all
  have "float_exponent x = - int (bit_length (nat \<lceil>1 / \<bar>x\<bar>\<rceil> - 1))"
    using False unfolding float_exponent_def Let_def by (simp only: if_False)
  also have "\<dots> = - int (bit_length m)" by (simp only: m_def n_def a_def)
  finally have e: "float_exponent x = - int (Suc k)" by (simp only: k)
  from b(1) have "real (2 ^ k) \<le> real m" by (simp only: of_nat_le_iff)
  then have "(2::real) ^ k \<le> real m" by simp
  with ngt mn have l: "(2::real) ^ k < 1 / a" by linarith
  from b(2) have "real (Suc m) \<le> real (2 ^ Suc k)" by (simp only: of_nat_le_iff Suc_le_eq)
  then have "real m + 1 \<le> 2 ^ Suc k" by simp
  with nge mn have u: "1 / a \<le> 2 ^ Suc k" by linarith
  from l a have l': "a < 1 / 2 ^ k" by (simp add: field_simps)
  from u a have u': "1 / 2 ^ Suc k \<le> a" by (simp add: field_simps)
  have p1: "2 powi (- int (Suc k)) = 1 / (2::real) ^ Suc k"
    by (simp only: power_int_minus_divide power_int_of_nat)
  have "- int (Suc k) + 1 = - int k" by simp
  then have p2: "2 powi (- int (Suc k) + 1) = 1 / (2::real) ^ k"
    by (simp only: power_int_minus_divide power_int_of_nat)
  from l' u' show ?thesis unfolding e p1 p2 a_def by blast
qed

lemma fl64_relative_error:
  assumes "2 powi (- 1022) \<le> \<bar>x\<bar>"
  shows "\<bar>fl64 x - x\<bar> \<le> \<bar>x\<bar> * 2 powi (- 53)"
proof -
  have pos: "(0::real) < 2 powi (- 1022)" by (simp add: zero_less_power_int)
  with assms have x0: "x \<noteq> 0" by auto
  define e where "e = float_exponent x"
  from float_exponent_bounds [OF x0] have lo: "2 powi e \<le> \<bar>x\<bar>" and hi: "\<bar>x\<bar> < 2 powi (e + 1)"
    by (simp_all add: e_def)
  have ege: "- 1022 \<le> e"
  proof (rule ccontr)
    assume "\<not> - 1022 \<le> e"
    then have "e + 1 \<le> - 1022" by simp
    then have "(2::real) powi (e + 1) \<le> 2 powi (- 1022)" by (rule power_int_increasing) simp
    with hi assms show False by simp
  qed
  define q where "q = (2::real) powi (e - 52)"
  have q0: "0 < q" by (simp add: q_def zero_less_power_int)
  have f: "fl64 x = of_int (round_half_even (x / q)) * q"
    using x0 ege by (simp add: fl64_def e_def [symmetric] q_def max_def Let_def)
  have "\<bar>of_int (round_half_even (x / q)) - x / q\<bar> \<le> 1 / 2" by (rule round_half_even_close)
  then have "\<bar>of_int (round_half_even (x / q)) - x / q\<bar> * q \<le> 1 / 2 * q"
    using q0 by (simp add: mult_right_mono)
  moreover have "\<bar>of_int (round_half_even (x / q)) - x / q\<bar> * q
      = \<bar>of_int (round_half_even (x / q)) * q - x\<bar>"
  proof -
    have "\<bar>of_int (round_half_even (x / q)) - x / q\<bar> * q
        = \<bar>(of_int (round_half_even (x / q)) - x / q) * q\<bar>"
      using q0 by (simp add: abs_mult)
    also have "(of_int (round_half_even (x / q)) - x / q) * q
        = of_int (round_half_even (x / q)) * q - x"
      using q0 by (simp add: field_simps)
    finally show ?thesis .
  qed
  ultimately have d: "\<bar>fl64 x - x\<bar> \<le> q / 2" by (simp add: f)
  have "q / 2 = 2 powi e * 2 powi (- 53)"
    unfolding q_def by (simp add: power_int_add [symmetric] power_int_diff)
  also have "\<dots> \<le> \<bar>x\<bar> * 2 powi (- 53)"
    using lo by (simp add: mult_right_mono zero_less_power_int)
  finally show ?thesis using d by simp
qed



lemma count_list_pos: "k \<in> set xs \<Longrightarrow> 0 < count_list xs k"
  by (induction xs) auto

lemma Counter_entry:
  assumes "(e, c) \<in> set (Counter xs)"
  shows "e \<in> set xs \<and> c = count_list xs e \<and> 0 < c \<and> c \<le> length xs"
proof -
  from assms Counter_distinct [of xs] have m: "map_of (Counter xs) e = Some c" by simp
  then have e: "e \<in> set xs" and c: "c = count_list xs e"
    by (simp_all add: Counter_map_of split: if_splits)
  from e c count_list_pos count_le_length [of xs e] show ?thesis by simp
qed

lemma Counter_maps:
  "maps_each_emotion share xs
     (map (\<lambda>(e, c). (e, share c (sum_list (map snd (Counter xs))))) (Counter xs))"
  unfolding maps_each_emotion_def scaled_keys
  by (simp add: Counter_distinct Counter_keys Counter_sum scaled_map_of Counter_map_of)

lemma sum_list_abs_diff:
  fixes g h k :: "'a \<Rightarrow> real"
  shows "(\<forall>x \<in> set xs. \<bar>g x - h x\<bar> \<le> k x) \<Longrightarrow>
   \<bar>sum_list (map g xs) - sum_list (map h xs)\<bar> \<le> sum_list (map k xs)"
proof (induction xs)
  case Nil
  show ?case by simp
next
  case (Cons x xs)
  then have a: "\<bar>g x - h x\<bar> \<le> k x"
    and b: "\<bar>sum_list (map g xs) - sum_list (map h xs)\<bar> \<le> sum_list (map k xs)" by simp_all
  have "\<bar>sum_list (map g (x # xs)) - sum_list (map h (x # xs))\<bar>
      = \<bar>(g x - h x) + (sum_list (map g xs) - sum_list (map h xs))\<bar>" by simp
  also have "\<dots> \<le> \<bar>g x - h x\<bar> + \<bar>sum_list (map g xs) - sum_list (map h xs)\<bar>"
    by (rule abs_triangle_ineq)
  also have "\<dots> \<le> k x + sum_list (map k xs)" using a b by simp
  finally show ?case by simp
qed

lemma sum_list_scaled:
  "sum_list (map (\<lambda>(e, c). real c * s) cs) = real (sum_list (map snd cs)) * s"
  by (induction cs) (auto simp: distrib_right)

lemma unit_roundoff_bounds: "0 < unit_roundoff" "unit_roundoff < 1 / 100"
proof -
  show "0 < unit_roundoff" by (simp add: unit_roundoff_def zero_less_power_int)
  have "(2::real) powi (- 53) \<le> 2 powi (- 7)" by (rule power_int_increasing) simp_all
  also have "\<dots> < 1 / 100" by (simp add: power_int_minus_divide)
  finally show "unit_roundoff < 1 / 100" by (simp add: unit_roundoff_def)
qed

lemma float_percentage_close:
  assumes c: "0 < c" and ct: "c \<le> t" and t: "real t \<le> 2 ^ 1022"
  shows "\<bar>float_percentage c t - real c / real t * 100\<bar>
           \<le> real c / real t * percentage_tolerance"
proof -
  define u where "u = unit_roundoff"
  have u: "0 < u" "u < 1 / 100" using unit_roundoff_bounds by (simp_all add: u_def)
  define q where "q = real c / real t"
  from c ct have t0: "0 < real t" by simp
  have low: "(2::real) powi (- 1022) = 1 / 2 ^ 1022" by (simp add: power_int_minus_divide)
  have "1 / real t \<le> q" using c t0 by (simp add: q_def divide_right_mono)
  moreover have "1 / 2 ^ 1022 \<le> 1 / real t" using t t0 by (simp add: frac_le)
  ultimately have qlow: "2 powi (- 1022) \<le> q" unfolding low by simp
  have q0: "0 < q" using c t0 by (simp add: q_def)
  define r where "r = fl64 q"
  from fl64_relative_error [of q] qlow q0 have rq: "\<bar>r - q\<bar> \<le> q * u"
    by (simp add: r_def u_def unit_roundoff_def)
  then have rlo: "q * (1 - u) \<le> r" and rhi: "r \<le> q * (1 + u)"
    by (simp_all add: abs_le_iff algebra_simps)
  have "q \<le> q * (1 - u) * 100" using q0 u by (simp add: algebra_simps)
  also have "\<dots> \<le> r * 100" using rlo by simp
  finally have r100: "q \<le> r * 100" .
  with qlow q0 have "2 powi (- 1022) \<le> \<bar>r * 100\<bar>" by simp
  from fl64_relative_error [OF this] r100 q0
  have pr: "\<bar>fl64 (r * 100) - r * 100\<bar> \<le> r * 100 * u"
    by (simp add: u_def unit_roundoff_def)
  have "\<bar>fl64 (r * 100) - q * 100\<bar>
      \<le> \<bar>fl64 (r * 100) - r * 100\<bar> + \<bar>r * 100 - q * 100\<bar>" by simp
  also have "\<bar>r * 100 - q * 100\<bar> = \<bar>r - q\<bar> * 100" by (simp add: abs_if)
  also have "\<bar>fl64 (r * 100) - r * 100\<bar> + \<bar>r - q\<bar> * 100 \<le> r * 100 * u + q * u * 100"
    using pr rq by simp
  also have "\<dots> \<le> q * (1 + u) * 100 * u + q * u * 100"
    using rhi u by (simp add: mult_right_mono)
  also have "\<dots> = q * (100 * (2 * u + u ^ 2))" by (simp add: algebra_simps power2_eq_square)
  finally show ?thesis
    by (simp add: float_percentage_def q_def r_def percentage_tolerance_def u_def)
qed

lemma percentages_sum_close:
  assumes ne: "xs \<noteq> []" and len: "real (length xs) \<le> 2 ^ 1022"
  shows "\<bar>sum_list (map snd (map (\<lambda>(e, c). (e, float_percentage c (length xs))) (Counter xs)))
           - 100\<bar> \<le> percentage_tolerance"
proof -
  let ?t = "length xs"
  let ?g = "\<lambda>(e :: string, c). float_percentage c ?t"
  let ?h = "\<lambda>(e :: string, c). real c * (100 / real ?t)"
  let ?k = "\<lambda>(e :: string, c). real c * (percentage_tolerance / real ?t)"
  from ne have t0: "real ?t \<noteq> 0" by simp
  have "\<forall>x \<in> set (Counter xs). \<bar>?g x - ?h x\<bar> \<le> ?k x"
  proof
    fix x assume x: "x \<in> set (Counter xs)"
    obtain e c where ec: "x = (e, c)" by (cases x)
    from Counter_entry x ec have "0 < c" "c \<le> ?t" by blast+
    from float_percentage_close [OF this len] show "\<bar>?g x - ?h x\<bar> \<le> ?k x"
      by (simp add: ec)
  qed
  from sum_list_abs_diff [OF this]
  have "\<bar>sum_list (map ?g (Counter xs)) - sum_list (map ?h (Counter xs))\<bar>
          \<le> sum_list (map ?k (Counter xs))" .
  moreover have "sum_list (map ?h (Counter xs)) = 100"
    by (simp only: sum_list_scaled Counter_sum) (use t0 in simp)
  moreover have "sum_list (map ?k (Counter xs)) = percentage_tolerance"
    by (simp only: sum_list_scaled Counter_sum) (use t0 in simp)
  moreover have "sum_list (map snd (map (\<lambda>(e, c). (e, float_percentage c ?t)) (Counter xs)))
      = sum_list (map ?g (Counter xs))"
    by (simp add: comp_def case_prod_unfold)
  ultimately show ?thesis by simp
qed


lemma category_average:
  "(if category_scores_of rs labels \<noteq> []
    then sum_list (category_scores_of rs labels) / real (length (category_scores_of rs labels))
    else 0)
   = average_intensity (filter (\<lambda>r. eh_emotion r \<in> set labels) rs)"
proof -
  have eq: "category_scores_of rs labels
      = map counted_intensity (filter (\<lambda>r. eh_emotion r \<in> set labels) rs)"
    unfolding category_scores_of_def
    by (rule map_cong) (simp_all add: intensity_or_default_def counted_intensity_def)
  show ?thesis
    unfolding eq by (simp add: average_intensity_def)
qed

lemma percentages_of_Counter:
  assumes "xs \<noteq> []"
  shows "maps_each_emotion float_percentage xs
           (map (\<lambda>(e, c). (e, fl64 (fl64 (real c / real (sum_list (map snd (Counter xs)))) * 100)))
              (Counter xs))
       \<and> (length xs \<le> 2 ^ 1022 \<longrightarrow>
            \<bar>sum_list (map snd
                (map (\<lambda>(e, c).
                        (e, fl64 (fl64 (real c / real (sum_list (map snd (Counter xs)))) * 100)))
                   (Counter xs))) - 100\<bar> \<le> percentage_tolerance)"
  using Counter_maps [of float_percentage xs] percentages_sum_close [OF assms]
  by (simp add: float_percentage_def Counter_sum)

lemma shares_of_Counter:
  "maps_each_emotion float_share xs
     (map (\<lambda>(e, c). (e, fl64 (real c / real (sum_list (map snd (Counter xs)))))) (Counter xs))"
  using Counter_maps [of float_share xs] by (simp add: float_share_def)

lemma two_thirds_percent: "fl64 (fl64 (2 / 3) * 100) = 4691249611844266 / 2 ^ 46"
  by code_simp

lemma one_third_percent: "fl64 (fl64 (1 / 3) * 100) = 4691249611844266 / 2 ^ 47"
  by code_simp

lemma two_thirds_share: "fl64 (2 / 3) = 6004799503160661 / 2 ^ 53"
  by code_simp

lemma one_third_share: "fl64 (1 / 3) = 6004799503160661 / 2 ^ 54"
  by code_simp

lemma sample_cutoff: "cutoff_date sample_now 30 = Inr 1697408000000000"
  by (simp add: cutoff_date_def timedelta_days_def datetime_sub_def bind_exn_def
      sample_now_def datetime_min_def datetime_max_def)

lemma overflow_cutoff: "cutoff_date sample_now 800000 = Inl (PyException ''OverflowError'')"
  by (simp add: cutoff_date_def timedelta_days_def datetime_sub_def bind_exn_def
      sample_now_def datetime_min_def datetime_max_def)

lemma sample_history_query:
  "query_emotion_history sample_history 1 sample_now 30 = Inr sample_window"
  by (simp add: query_emotion_history_def sample_cutoff bind_exn_def sample_history_def
      sample_window_def)

lemma sample_window_nonempty: "sample_window \<noteq> []"
  by (simp add: sample_window_def)

lemma sample_window_emotions: "map eh_emotion sample_window = [''joy'', ''joy'', ''sadness'']"
  by (simp add: sample_window_def)

lemma sample_history_none: "query_emotion_history sample_history 3 sample_now 30 = Inr []"
  by (simp add: query_emotion_history_def sample_cutoff bind_exn_def sample_history_def)

lemma zero_intensity_query:
  "query_emotion_history zero_intensity_history 1 sample_now 30 = Inr zero_intensity_history"
  by (simp add: query_emotion_history_def sample_cutoff bind_exn_def zero_intensity_history_def)

lemma sample_conversations_query:
  "query_conversation_emotions sample_conversations 1 sample_now 30
     = Inr [''joy'', ''joy'', ''sadness'']"
  by (simp add: query_conversation_emotions_def sample_cutoff bind_exn_def
      sample_conversations_def List.map_filter_simps)

lemma sample_conversations_none:
  "query_conversation_emotions sample_conversations 3 sample_now 30 = Inr []"
  by (simp add: query_conversation_emotions_def sample_cutoff bind_exn_def
      sample_conversations_def List.map_filter_simps)

lemma sample_messages_none: "query_conversations sample_conversations 3 sample_now 30 = Inr []"
  by (simp add: query_conversations_def sample_cutoff bind_exn_def sample_conversations_def)

lemma sample_Counter: "Counter [''joy'', ''joy'', ''sadness''] = [(''joy'', 2), (''sadness'', 1)]"
  by (simp add: Counter_def)

section \<open>The detector\<close>

text \<open>
  Claim C1, as stated, fails: a trained model whose decoded prediction is \<open>disgust\<close> makes
  \<open>detect_emotion\<close> return a label outside the seven default labels.
\<close>

theorem detect_emotion_label_outside_default:
  "detect_emotion sample_textblob
     (load_models (Some disgust_classifier) (Some sample_vectorizer) (Some disgust_encoder))
     ''that is revolting'' = Inr (''disgust'', 0.9, 0.5)
   \<and> ''disgust'' \<notin> set default_emotion_labels"
proof -
  have s: "strip ''that is revolting'' \<noteq> []" by (simp add: strip_def isspace_def)
  show ?thesis
    by (simp add: detect_emotion_def s predict_with_model_def predict_with_model_try_def
        load_models_def disgust_classifier_def sample_vectorizer_def disgust_encoder_def
        bind_exn_def call_method_def py_max_def get_sentiment_score_def sample_textblob_def
        default_emotion_labels_def)
qed

text \<open>
  Claim C1, amended. The label is one of the seven default labels whenever the trained
  model did not produce it: the text is blank, the detector runs without model artifacts,
  or the trained-model path raised. A reading that the trained-model path does produce is
  returned as it is, its label not coerced. This holds for \<open>detect_emotion\<close> and for
  \<open>predict_emotion\<close>.
\<close>

theorem label_default_unless_trained:
  "((model d = None \<or> vectorizer d = None \<or> strip text = []
       \<or> isl (predict_with_model_try tb d text)) \<longrightarrow>
      (\<exists>l. label_of (detect_emotion tb d text) = Some l \<and> l \<in> set default_emotion_labels))
   \<and> (model d \<noteq> None \<and> vectorizer d \<noteq> None \<and> strip text \<noteq> []
        \<and> predict_with_model_try tb d text = Inr r \<longrightarrow>
      detect_emotion tb d text = Inr r)
   \<and> ((\<not> is_loaded md \<or> ml_vectorizer md = None \<or> ml_model md = None
        \<or> ml_label_encoder md = None \<or> strip text = []
        \<or> isl (predict_emotion_try md (lower (strip text)))) \<longrightarrow>
      (\<exists>l. label_of (predict_emotion md text) = Some l \<and> l \<in> set default_emotion_labels))
   \<and> (is_loaded md \<and> ml_vectorizer md \<noteq> None \<and> ml_model md \<noteq> None
        \<and> ml_label_encoder md \<noteq> None \<and> strip text \<noteq> []
        \<and> predict_emotion_try md (lower (strip text)) = Inr r' \<longrightarrow>
      predict_emotion md text = Inr r')"
proof (intro conjI impI)
  assume h: "model d = None \<or> vectorizer d = None \<or> strip text = []
       \<or> isl (predict_with_model_try tb d text)"
  have "detect_emotion tb d text = Inr (''neutral'', 0.5, 0.0)
      \<or> detect_emotion tb d text = Inr (fallback_detection tb text)"
    using h by (auto simp: detect_emotion_def predict_with_model_def split: sum.splits)
  then show "\<exists>l. label_of (detect_emotion tb d text) = Some l \<and> l \<in> set default_emotion_labels"
    using neutral_label fallback_detection_label [of tb "text"]
    by (auto simp: label_of_def)
next
  assume "model d \<noteq> None \<and> vectorizer d \<noteq> None \<and> strip text \<noteq> []
        \<and> predict_with_model_try tb d text = Inr r"
  moreover from this have "text \<noteq> []" by (auto simp: strip_def)
  ultimately show "detect_emotion tb d text = Inr r"
    by (simp add: detect_emotion_def predict_with_model_def)
next
  assume h: "\<not> is_loaded md \<or> ml_vectorizer md = None \<or> ml_model md = None
        \<or> ml_label_encoder md = None \<or> strip text = []
        \<or> isl (predict_emotion_try md (lower (strip text)))"
  have "predict_emotion md text = Inr (fallback_emotion_detection text)
      \<or> predict_emotion md text = Inr (fallback_emotion_detection (lower (strip text)))"
    using h by (auto simp: predict_emotion_def Let_def split: sum.splits)
  then show "\<exists>l. label_of (predict_emotion md text) = Some l \<and> l \<in> set default_emotion_labels"
    using fallback_emotion_detection_label [of "text"]
      fallback_emotion_detection_label [of "lower (strip text)"]
    by (auto simp: label_of_def)
next
  assume "is_loaded md \<and> ml_vectorizer md \<noteq> None \<and> ml_model md \<noteq> None
        \<and> ml_label_encoder md \<noteq> None \<and> strip text \<noteq> []
        \<and> predict_emotion_try md (lower (strip text)) = Inr r'"
  then show "predict_emotion md text = Inr r'"
    by (simp add: predict_emotion_def Let_def)
qed

theorem label_default_unless_trained_witness:
  "model (load_models None None None) = None
   \<and> label_of (detect_emotion sample_textblob (load_models None None None) ''I am happy'')
        = Some ''joy''
   \<and> ''joy'' \<in> set default_emotion_labels
   \<and> model (load_models (Some disgust_classifier) (Some sample_vectorizer) (Some disgust_encoder))
        \<noteq> None
   \<and> vectorizer
        (load_models (Some disgust_classifier) (Some sample_vectorizer) (Some disgust_encoder))
        \<noteq> None
   \<and> strip ''that is revolting'' \<noteq> []
   \<and> predict_with_model_try sample_textblob
        (load_models (Some disgust_classifier) (Some sample_vectorizer) (Some disgust_encoder))
        ''that is revolting'' = Inr (''disgust'', 0.9, 0.5)
   \<and> detect_emotion sample_textblob
        (load_models (Some disgust_classifier) (Some sample_vectorizer) (Some disgust_encoder))
        ''that is revolting'' = Inr (''disgust'', 0.9, 0.5)
   \<and> \<not> is_loaded unloaded_ml_detector
   \<and> label_of (predict_emotion unloaded_ml_detector ''I am happy'') = Some ''joy''
   \<and> is_loaded disgust_ml_detector
   \<and> predict_emotion_try disgust_ml_detector (lower (strip ''that is revolting''))
        = Inr (''disgust'', 0.9)
   \<and> predict_emotion disgust_ml_detector ''that is revolting'' = Inr (''disgust'', 0.9)"
proof -
  let ?f = "load_models None None None"
  let ?d = "load_models (Some disgust_classifier) (Some sample_vectorizer) (Some disgust_encoder)"
  have f: "model ?f = None" by (simp add: load_models_def)
  have d: "model ?d \<noteq> None" "vectorizer ?d \<noteq> None"
    by (simp_all add: load_models_def disgust_classifier_def sample_vectorizer_def)
  have s: "strip ''that is revolting'' \<noteq> []" by (simp add: strip_def isspace_def)
  have p: "predict_with_model_try sample_textblob ?d ''that is revolting''
             = Inr (''disgust'', 0.9, 0.5)"
    by (simp add: predict_with_model_try_def load_models_def disgust_classifier_def
        sample_vectorizer_def disgust_encoder_def bind_exn_def call_method_def py_max_def
        get_sentiment_score_def sample_textblob_def)
  have u: "\<not> is_loaded unloaded_ml_detector" by (simp add: unloaded_ml_detector_def)
  have m: "is_loaded disgust_ml_detector" "ml_vectorizer disgust_ml_detector \<noteq> None"
    "ml_model disgust_ml_detector \<noteq> None" "ml_label_encoder disgust_ml_detector \<noteq> None"
    by (simp_all add: disgust_ml_detector_def)
  have q: "predict_emotion_try disgust_ml_detector (lower (strip ''that is revolting''))
             = Inr (''disgust'', 0.9)"
    by (simp add: predict_emotion_try_def disgust_ml_detector_def disgust_classifier_def
        sample_vectorizer_def disgust_encoder_def bind_exn_def call_method_def py_max_def)
  have j1: "fst (keyword_detection ''I am happy'') = ''joy''" by code_simp
  have j2: "fst (fallback_emotion_detection ''I am happy'') = ''joy''" by code_simp
  have l1: "label_of (detect_emotion sample_textblob ?f ''I am happy'') = Some ''joy''"
    using j1 f
    by (simp add: label_of_def detect_emotion_def fallback_detection_def split_beta
        strip_def isspace_def)
  have l2: "label_of (predict_emotion unloaded_ml_detector ''I am happy'') = Some ''joy''"
    using j2 u by (simp add: label_of_def predict_emotion_def)
  from label_default_unless_trained [of ?f "''I am happy''" sample_textblob _ unloaded_ml_detector]
    label_default_unless_trained [of ?d "''that is revolting''" sample_textblob "(''disgust'', 0.9, 0.5)"
      disgust_ml_detector "(''disgust'', 0.9)"]
    f d s p u m q l1 l2
  show ?thesis by (simp add: default_emotion_labels_def)
qed

text \<open>
  Claim C2. For every text that is empty or consists of whitespace only, whatever the
  loaded artifacts, \<open>detect_emotion\<close> returns the fixed neutral reading (neutral, 0.5, 0.0),
  and the intensity derived from it is 0.5.
\<close>

theorem detect_emotion_blank:
  assumes "\<forall>c \<in> set text. isspace c"
  shows "detect_emotion tb d text = Inr (''neutral'', 0.5, 0.0)
       \<and> calculate_intensity ''neutral'' 0.5 0.0 = 0.5"
  using assms by (simp add: detect_emotion_def calculate_intensity_def strip_Nil_iff)

theorem detect_emotion_blank_witness:
  "list_all isspace ''   '' \<and> list_all isspace []
   \<and> detect_emotion sample_textblob (load_models None None None) ''   ''
        = Inr (''neutral'', 0.5, 0.0)
   \<and> detect_emotion sample_textblob (load_models None None None) []
        = Inr (''neutral'', 0.5, 0.0)
   \<and> calculate_intensity ''neutral'' 0.5 0.0 = 0.5"
proof -
  have h1: "\<forall>c \<in> set ''   ''. isspace c" by (simp add: isspace_def)
  have h2: "\<forall>c \<in> set []. isspace c" by simp
  show ?thesis
    using h1 detect_emotion_blank [OF h1, of sample_textblob "load_models None None None"]
      detect_emotion_blank [OF h2, of sample_textblob "load_models None None None"]
    by simp
qed

text \<open>
  Claim C3. For every emotion label, confidence and sentiment, \<open>calculate_intensity\<close> is
  the formula of the specification clamped to the unit interval, and so lies in it.
\<close>

theorem calculate_intensity_clamped_formula:
  "calculate_intensity emotion confidence sentiment
     = clamp01 (intensity_formula emotion confidence sentiment)
   \<and> 0 \<le> calculate_intensity emotion confidence sentiment
   \<and> calculate_intensity emotion confidence sentiment \<le> 1"
  by (simp add: calculate_intensity_def clamp01_def intensity_formula_def Let_def)




section \<open>The keyword fallback classifiers\<close>

text \<open>
  Claim C5. When two or more emotions attain the same maximal keyword score, both keyword
  classifiers return the first emotion of the keyword table, in its declared order, that
  reaches this score. The scores are the entries of the dict \<open>emotion_scores\<close>, which holds
  the emotions with at least one keyword in the text.
\<close>

theorem keyword_tie_first_in_table:
  "(tie_at_max (build_scores emotion_keywords (lower text)) m \<longrightarrow>
      first_reaching emotion_keywords (lower text) m = Some (fst (keyword_detection text)))
   \<and> (tie_at_max (build_scores ml_emotion_keywords (lower text)) m \<longrightarrow>
      first_reaching ml_emotion_keywords (lower text) m
        = Some (fst (fallback_emotion_detection text)))"
proof (intro conjI impI)
  assume t: "tie_at_max (build_scores emotion_keywords (lower text)) m"
  then obtain first rest where
    s: "build_scores emotion_keywords (lower text) = first # rest"
    by (cases "build_scores emotion_keywords (lower text)") (auto dest: tie_nonempty)
  from first_max_label [OF t s] show
    "first_reaching emotion_keywords (lower text) m = Some (fst (keyword_detection text))"
    by (simp add: keyword_detection_def s Let_def)
next
  assume t: "tie_at_max (build_scores ml_emotion_keywords (lower text)) m"
  then obtain first rest where
    s: "build_scores ml_emotion_keywords (lower text) = first # rest"
    by (cases "build_scores ml_emotion_keywords (lower text)") (auto dest: tie_nonempty)
  obtain e sc where "first = (e, sc)" by (cases first)
  then have "(e, sc) \<in> set (build_scores ml_emotion_keywords (lower text))" by (simp add: s)
  then have nb: "strip text \<noteq> []" by (rule ml_hit_not_blank)
  from first_max_label [OF t s] show
    "first_reaching ml_emotion_keywords (lower text) m
       = Some (fst (fallback_emotion_detection text))"
    by (simp add: fallback_emotion_detection_def s nb Let_def)
qed


theorem keyword_tie_first_in_table_witness:
  "tie_at_max (build_scores emotion_keywords (lower ''sad and happy'')) 1
   \<and> tie_at_max (build_scores ml_emotion_keywords (lower ''sad and happy'')) 1
   \<and> fst (keyword_detection ''sad and happy'') = ''joy''
   \<and> fst (fallback_emotion_detection ''sad and happy'') = ''joy''"
proof -
  have s1: "build_scores emotion_keywords (lower ''sad and happy'') = [(''joy'', 1), (''sadness'', 1)]"
    by code_simp
  have s2: "build_scores ml_emotion_keywords (lower ''sad and happy'') = [(''joy'', 1), (''sadness'', 1)]"
    by code_simp
  have t: "tie_at_max [(''joy'', 1), (''sadness'', 1)] 1"
    by (simp add: tie_at_max_def)
  have f1: "first_reaching emotion_keywords (lower ''sad and happy'') 1 = Some ''joy''"
    by code_simp
  have f2: "first_reaching ml_emotion_keywords (lower ''sad and happy'') 1 = Some ''joy''"
    by code_simp
  show ?thesis
    using keyword_tie_first_in_table [of "''sad and happy''" 1] t f1 f2 by (simp add: s1 s2)
qed



text \<open>
  Claim C10. In \<open>ml_utils.py\<close> the keyword \<open>love\<close> belongs to joy and to love, so a text whose
  only keyword hit is \<open>love\<close> is classified as (joy, 0.6).
\<close>

theorem love_only_is_joy:
  assumes "\<forall>k \<in> set (concat (map snd ml_emotion_keywords)). py_in k (lower text) \<longleftrightarrow> k = ''love''"
  shows "fallback_emotion_detection text = (''joy'', 0.6)"
proof -
  from assms have "py_in ''love'' (lower text)" by (simp add: ml_emotion_keywords_def)
  then have nb: "strip text \<noteq> []" by (rule hit_not_blank) (simp_all add: isspace_def)
  have sc: "build_scores ml_emotion_keywords (lower text) = [(''joy'', 1), (''love'', 1)]"
    using assms by (simp add: ml_emotion_keywords_def build_scores_def keyword_score_def)
  show ?thesis
    by (simp add: fallback_emotion_detection_def nb sc ml_confidence_def)
qed

theorem love_only_is_joy_witness:
  "list_all (\<lambda>k. py_in k (lower ''I LOVE you'') \<longleftrightarrow> k = ''love'')
     (concat (map snd ml_emotion_keywords))
   \<and> fallback_emotion_detection ''I LOVE you'' = (''joy'', 0.6)"
proof -
  have h: "\<forall>k \<in> set (concat (map snd ml_emotion_keywords)).
      py_in k (lower ''I LOVE you'') \<longleftrightarrow> k = ''love''"
    by code_simp
  from h love_only_is_joy [OF h] show ?thesis by (simp add: list_all_iff)
qed

section \<open>The analytics views\<close>

text \<open>
  Claim C7, as stated, fails: on three records with the emotions joy, joy and sadness the
  two percentages returned are the floats nearest below 200/3 and 100/3, and they add up
  to \<open>100 - 2 ^ -46\<close>, not to 100.
\<close>

theorem percentages_sum_below_100:
  "get_emotion_distribution sample_history 1 sample_now 30
     = Inr [(''joy'', 4691249611844266 / 2 ^ 46), (''sadness'', 4691249611844266 / 2 ^ 47)]
   \<and> emotion_distribution sample_conversations 1 sample_now 30
     = Inr [(''joy'', 4691249611844266 / 2 ^ 46), (''sadness'', 4691249611844266 / 2 ^ 47)]
   \<and> sum_list (map snd [(''joy'', 4691249611844266 / 2 ^ 46 :: real),
                          (''sadness'', 4691249611844266 / 2 ^ 47)]) = 100 - 1 / 2 ^ 46
   \<and> sum_list (map snd [(''joy'', 4691249611844266 / 2 ^ 46 :: real),
                          (''sadness'', 4691249611844266 / 2 ^ 47)]) \<noteq> 100"
proof -
  have a: "get_emotion_distribution sample_history 1 sample_now 30
     = Inr [(''joy'', 4691249611844266 / 2 ^ 46), (''sadness'', 4691249611844266 / 2 ^ 47)]"
    by (simp add: get_emotion_distribution_def sample_history_query bind_exn_def
        sample_window_nonempty sample_window_emotions sample_Counter two_thirds_percent
        one_third_percent)
  have b: "emotion_distribution sample_conversations 1 sample_now 30
     = Inr [(''joy'', 4691249611844266 / 2 ^ 46), (''sadness'', 4691249611844266 / 2 ^ 47)]"
    by (simp add: emotion_distribution_def sample_conversations_query bind_exn_def
        sample_Counter two_thirds_percent one_third_percent)
  show ?thesis unfolding a b by simp
qed

text \<open>
  Claim C7, amended. When the lookback has a cutoff date and the set of filtered records
  is not empty, the emotion distribution has exactly the emotions that occur as keys and
  maps each to the float \<open>(count / total) * 100\<close>; for at most \<open>2 ^ 1022\<close> records the
  values add up to 100 within \<open>100 * (2 * u + u ^ 2)\<close>, where \<open>u = 2 ^ -53\<close>. For an empty
  set it is the empty mapping. This holds for \<open>get_emotion_distribution\<close> and for the
  \<open>emotion_distribution\<close> route.
\<close>

theorem emotion_distribution_float_percentages:
  "(query_emotion_history db user_id now days = Inr [] \<longrightarrow>
      get_emotion_distribution db user_id now days = Inr [])
   \<and> (query_emotion_history db user_id now days = Inr rs \<and> rs \<noteq> [] \<longrightarrow>
      (\<exists>shares. get_emotion_distribution db user_id now days = Inr shares
         \<and> maps_each_emotion float_percentage (map eh_emotion rs) shares
         \<and> (length rs \<le> 2 ^ 1022 \<longrightarrow>
              \<bar>sum_list (map snd shares) - 100\<bar> \<le> percentage_tolerance)))
   \<and> (query_conversation_emotions cdb user_id now days = Inr [] \<longrightarrow>
      emotion_distribution cdb user_id now days = Inr [])
   \<and> (query_conversation_emotions cdb user_id now days = Inr es \<and> es \<noteq> [] \<longrightarrow>
      (\<exists>shares. emotion_distribution cdb user_id now days = Inr shares
         \<and> maps_each_emotion float_percentage es shares
         \<and> (length es \<le> 2 ^ 1022 \<longrightarrow>
              \<bar>sum_list (map snd shares) - 100\<bar> \<le> percentage_tolerance)))"
proof (intro conjI impI)
  assume "query_emotion_history db user_id now days = Inr []"
  then show "get_emotion_distribution db user_id now days = Inr []"
    by (simp add: get_emotion_distribution_def bind_exn_def)
next
  assume h: "query_emotion_history db user_id now days = Inr rs \<and> rs \<noteq> []"
  then have ne: "map eh_emotion rs \<noteq> []" by simp
  let ?shares = "map (\<lambda>(e, c). (e, fl64 (fl64 (real c
                   / real (sum_list (map snd (Counter (map eh_emotion rs))))) * 100)))
                   (Counter (map eh_emotion rs))"
  from h have "get_emotion_distribution db user_id now days = Inr ?shares"
    by (simp add: get_emotion_distribution_def bind_exn_def Let_def)
  moreover from percentages_of_Counter [OF ne]
  have "maps_each_emotion float_percentage (map eh_emotion rs) ?shares
      \<and> (length rs \<le> 2 ^ 1022 \<longrightarrow> \<bar>sum_list (map snd ?shares) - 100\<bar> \<le> percentage_tolerance)"
    by simp
  ultimately show "\<exists>shares. get_emotion_distribution db user_id now days = Inr shares
         \<and> maps_each_emotion float_percentage (map eh_emotion rs) shares
         \<and> (length rs \<le> 2 ^ 1022 \<longrightarrow>
              \<bar>sum_list (map snd shares) - 100\<bar> \<le> percentage_tolerance)"
    by blast
next
  assume "query_conversation_emotions cdb user_id now days = Inr []"
  then show "emotion_distribution cdb user_id now days = Inr []"
    by (simp add: emotion_distribution_def bind_exn_def)
next
  assume h: "query_conversation_emotions cdb user_id now days = Inr es \<and> es \<noteq> []"
  then have ne: "es \<noteq> []" by simp
  let ?shares = "map (\<lambda>(e, c). (e, fl64 (fl64 (real c
                   / real (sum_list (map snd (Counter es)))) * 100))) (Counter es)"
  from h have "emotion_distribution cdb user_id now days = Inr ?shares"
    by (simp add: emotion_distribution_def bind_exn_def Let_def)
  moreover from percentages_of_Counter [OF ne]
  have "maps_each_emotion float_percentage es ?shares
      \<and> (length es \<le> 2 ^ 1022 \<longrightarrow> \<bar>sum_list (map snd ?shares) - 100\<bar> \<le> percentage_tolerance)"
    by simp
  ultimately show "\<exists>shares. emotion_distribution cdb user_id now days = Inr shares
         \<and> maps_each_emotion float_percentage es shares
         \<and> (length es \<le> 2 ^ 1022 \<longrightarrow>
              \<bar>sum_list (map snd shares) - 100\<bar> \<le> percentage_tolerance)"
    by blast
qed

theorem emotion_distribution_float_percentages_witness:
  "query_emotion_history sample_history 3 sample_now 30 = Inr []
   \<and> get_emotion_distribution sample_history 3 sample_now 30 = Inr []
   \<and> query_emotion_history sample_history 1 sample_now 30 = Inr sample_window
   \<and> sample_window \<noteq> [] \<and> length sample_window \<le> 2 ^ 1022
   \<and> (\<exists>shares. get_emotion_distribution sample_history 1 sample_now 30 = Inr shares
         \<and> maps_each_emotion float_percentage [''joy'', ''joy'', ''sadness''] shares
         \<and> \<bar>sum_list (map snd shares) - 100\<bar> \<le> percentage_tolerance)
   \<and> query_conversation_emotions sample_conversations 3 sample_now 30 = Inr []
   \<and> emotion_distribution sample_conversations 3 sample_now 30 = Inr []
   \<and> query_conversation_emotions sample_conversations 1 sample_now 30
        = Inr [''joy'', ''joy'', ''sadness'']
   \<and> (\<exists>shares. emotion_distribution sample_conversations 1 sample_now 30 = Inr shares
         \<and> maps_each_emotion float_percentage [''joy'', ''joy'', ''sadness''] shares
         \<and> \<bar>sum_list (map snd shares) - 100\<bar> \<le> percentage_tolerance)"
proof -
  have w: "sample_window \<noteq> []" "length sample_window \<le> 2 ^ 1022"
    by (simp_all add: sample_window_def)
  have l: "length [''joy'', ''joy'', ''sadness''] \<le> 2 ^ 1022" by simp
  note t1 = emotion_distribution_float_percentages
    [of sample_history 3 sample_now 30 _ sample_conversations]
  note t2 = emotion_distribution_float_percentages
    [of sample_history 1 sample_now 30 sample_window sample_conversations
      "[''joy'', ''joy'', ''sadness'']"]
  from t1 sample_history_none sample_conversations_none
  have e: "get_emotion_distribution sample_history 3 sample_now 30 = Inr []"
    "emotion_distribution sample_conversations 3 sample_now 30 = Inr []" by simp_all
  from t2 sample_history_query w
  have a: "\<exists>shares. get_emotion_distribution sample_history 1 sample_now 30 = Inr shares
         \<and> maps_each_emotion float_percentage [''joy'', ''joy'', ''sadness''] shares
         \<and> \<bar>sum_list (map snd shares) - 100\<bar> \<le> percentage_tolerance"
    by (simp add: sample_window_emotions)
  from t2 sample_conversations_query l
  have b: "\<exists>shares. emotion_distribution sample_conversations 1 sample_now 30 = Inr shares
         \<and> maps_each_emotion float_percentage [''joy'', ''joy'', ''sadness''] shares
         \<and> \<bar>sum_list (map snd shares) - 100\<bar> \<le> percentage_tolerance"
    by simp
  show ?thesis
    using sample_history_none sample_history_query sample_conversations_none
      sample_conversations_query w e a b
    by (intro conjI)
qed

text \<open>
  Claim C8, as stated, fails: on an empty filtered set \<open>get_emotional_balance\<close> returns the
  empty mapping, with no entry for the category Positive; a stored intensity of 0 is
  averaged as 0.5; and the \<open>emotional_balance\<close> route returns the share of each emotion,
  with no category at all.
\<close>

theorem emotional_balance_no_categories:
  "query_emotion_history [] 1 sample_now 30 = Inr []
   \<and> get_emotional_balance [] 1 sample_now 30 = Inr []
   \<and> get_emotional_balance [] 1 sample_now 30
        \<noteq> Inr [(''Positive'', 0), (''Negative'', 0), (''Neutral'', 0)]
   \<and> map eh_intensity zero_intensity_history = [Some 0]
   \<and> get_emotional_balance zero_intensity_history 1 sample_now 30
        = Inr [(''Positive'', 0.5), (''Negative'', 0), (''Neutral'', 0)]
   \<and> emotional_balance sample_conversations 1 sample_now 30
        = Inr [(''joy'', 6004799503160661 / 2 ^ 53), (''sadness'', 6004799503160661 / 2 ^ 54)]"
proof -
  have q: "query_emotion_history [] 1 sample_now 30 = Inr []"
    by (simp add: query_emotion_history_def sample_cutoff bind_exn_def)
  have z: "get_emotional_balance zero_intensity_history 1 sample_now 30
        = Inr [(''Positive'', 0.5), (''Negative'', 0), (''Neutral'', 0)]"
    unfolding get_emotional_balance_def zero_intensity_query
    by (simp add: bind_exn_def zero_intensity_history_def emotion_categories_def
        category_scores_of_def intensity_or_default_def)
  have r: "emotional_balance sample_conversations 1 sample_now 30
        = Inr [(''joy'', 6004799503160661 / 2 ^ 53), (''sadness'', 6004799503160661 / 2 ^ 54)]"
    by (simp add: emotional_balance_def sample_conversations_query bind_exn_def sample_Counter
        two_thirds_share one_third_share)
  show ?thesis
    unfolding z r by (simp add: q get_emotional_balance_def bind_exn_def zero_intensity_history_def)
qed

text \<open>
  Claim C8, amended. When the lookback has a cutoff date and the set of filtered records
  is not empty, \<open>get_emotional_balance\<close> returns the three categories in order, each with
  the average intensity of the records whose emotion falls in it, a missing or zero
  intensity counting as 0.5, and with 0 when no record falls in it; on an empty filtered
  set it returns the empty mapping. The \<open>emotional_balance\<close> route returns, for each
  emotion that occurs, the float \<open>count / total\<close>, and the empty mapping when there is none.
\<close>

theorem emotional_balance_views:
  "(query_emotion_history db user_id now days = Inr [] \<longrightarrow>
      get_emotional_balance db user_id now days = Inr [])
   \<and> (query_emotion_history db user_id now days = Inr rs \<and> rs \<noteq> [] \<longrightarrow>
      get_emotional_balance db user_id now days =
        Inr [(''Positive'', average_intensity
               (filter (\<lambda>r. eh_emotion r \<in> {''joy'', ''love'', ''surprise''}) rs)),
             (''Negative'', average_intensity
               (filter (\<lambda>r. eh_emotion r \<in> {''sadness'', ''anger'', ''fear''}) rs)),
             (''Neutral'', average_intensity
               (filter (\<lambda>r. eh_emotion r \<in> {''neutral''}) rs))])
   \<and> (query_conversation_emotions cdb user_id now days = Inr [] \<longrightarrow>
      emotional_balance cdb user_id now days = Inr [])
   \<and> (query_conversation_emotions cdb user_id now days = Inr es \<and> es \<noteq> [] \<longrightarrow>
      (\<exists>shares. emotional_balance cdb user_id now days = Inr shares
         \<and> maps_each_emotion float_share es shares))"
proof (intro conjI impI)
  assume "query_emotion_history db user_id now days = Inr []"
  then show "get_emotional_balance db user_id now days = Inr []"
    by (simp add: get_emotional_balance_def bind_exn_def)
next
  assume h: "query_emotion_history db user_id now days = Inr rs \<and> rs \<noteq> []"
  then show "get_emotional_balance db user_id now days =
        Inr [(''Positive'', average_intensity
               (filter (\<lambda>r. eh_emotion r \<in> {''joy'', ''love'', ''surprise''}) rs)),
             (''Negative'', average_intensity
               (filter (\<lambda>r. eh_emotion r \<in> {''sadness'', ''anger'', ''fear''}) rs)),
             (''Neutral'', average_intensity
               (filter (\<lambda>r. eh_emotion r \<in> {''neutral''}) rs))]"
    using category_average [of rs "[''joy'', ''love'', ''surprise'']"]
      category_average [of rs "[''sadness'', ''anger'', ''fear'']"]
      category_average [of rs "[''neutral'']"]
    by (simp add: get_emotional_balance_def bind_exn_def emotion_categories_def Let_def)
next
  assume "query_conversation_emotions cdb user_id now days = Inr []"
  then show "emotional_balance cdb user_id now days = Inr []"
    by (simp add: emotional_balance_def bind_exn_def)
next
  assume h: "query_conversation_emotions cdb user_id now days = Inr es \<and> es \<noteq> []"
  let ?shares = "map (\<lambda>(e, c). (e, fl64 (real c / real (sum_list (map snd (Counter es))))))
                   (Counter es)"
  from h have "emotional_balance cdb user_id now days = Inr ?shares"
    by (simp add: emotional_balance_def bind_exn_def Let_def)
  with shares_of_Counter [of es]
  show "\<exists>shares. emotional_balance cdb user_id now days = Inr shares
         \<and> maps_each_emotion float_share es shares"
    by blast
qed

theorem emotional_balance_views_witness:
  "query_emotion_history sample_history 3 sample_now 30 = Inr []
   \<and> get_emotional_balance sample_history 3 sample_now 30 = Inr []
   \<and> query_emotion_history sample_history 1 sample_now 30 = Inr sample_window
   \<and> sample_window \<noteq> []
   \<and> get_emotional_balance sample_history 1 sample_now 30
        = Inr [(''Positive'', 0.65), (''Negative'', 0.4), (''Neutral'', 0)]
   \<and> query_conversation_emotions sample_conversations 3 sample_now 30 = Inr []
   \<and> emotional_balance sample_conversations 3 sample_now 30 = Inr []
   \<and> query_conversation_emotions sample_conversations 1 sample_now 30
        = Inr [''joy'', ''joy'', ''sadness'']
   \<and> (\<exists>shares. emotional_balance sample_conversations 1 sample_now 30 = Inr shares
         \<and> maps_each_emotion float_share [''joy'', ''joy'', ''sadness''] shares)"
proof -
  have w: "sample_window \<noteq> []" by (simp add: sample_window_def)
  have a: "average_intensity
             (filter (\<lambda>r. eh_emotion r \<in> {''joy'', ''love'', ''surprise''}) sample_window)
             = 0.65"
    "average_intensity
       (filter (\<lambda>r. eh_emotion r \<in> {''sadness'', ''anger'', ''fear''}) sample_window)
       = 0.4"
    "average_intensity (filter (\<lambda>r. eh_emotion r \<in> {''neutral''}) sample_window) = 0"
    by (simp_all add: sample_window_def average_intensity_def counted_intensity_def)
  note t1 = emotional_balance_views [of sample_history 3 sample_now 30 _ sample_conversations]
  note t2 = emotional_balance_views
    [of sample_history 1 sample_now 30 sample_window sample_conversations
      "[''joy'', ''joy'', ''sadness'']"]
  from t1 sample_history_none sample_conversations_none
  have e: "get_emotional_balance sample_history 3 sample_now 30 = Inr []"
    "emotional_balance sample_conversations 3 sample_now 30 = Inr []" by simp_all
  from t2 sample_history_query w
  have "get_emotional_balance sample_history 1 sample_now 30 =
        Inr [(''Positive'', average_intensity
               (filter (\<lambda>r. eh_emotion r \<in> {''joy'', ''love'', ''surprise''}) sample_window)),
             (''Negative'', average_intensity
               (filter (\<lambda>r. eh_emotion r \<in> {''sadness'', ''anger'', ''fear''}) sample_window)),
             (''Neutral'', average_intensity
               (filter (\<lambda>r. eh_emotion r \<in> {''neutral''}) sample_window))]"
    by (simp only: simp_thms)
  then have g: "get_emotional_balance sample_history 1 sample_now 30
        = Inr [(''Positive'', 0.65), (''Negative'', 0.4), (''Neutral'', 0)]"
    unfolding a .
  from t2 sample_conversations_query
  have b: "\<exists>shares. emotional_balance sample_conversations 1 sample_now 30 = Inr shares
         \<and> maps_each_emotion float_share [''joy'', ''joy'', ''sadness''] shares"
    by simp
  show ?thesis
    using sample_history_none sample_history_query sample_conversations_none
      sample_conversations_query w e g b
    by (intro conjI)
qed

text \<open>
  Claim C9, as stated, fails for the summary route: on an empty set \<open>analytics_summary\<close>
  reports \<open>neutral\<close> as the most common emotion, not \<open>N/A\<close>; and for a lookback of 800000
  days, which has no cutoff date, it raises \<open>OverflowError\<close>, also on an empty table.
\<close>

theorem analytics_summary_empty_neutral:
  "query_conversations [] 1 sample_now 30 = Inr []
   \<and> analytics_summary [] 1 sample_now 30
       = Inr \<lparr>total_entries = 0, most_common_emotion = ''neutral'',
              average_sentiment = 0, days_tracked = 0\<rparr>
   \<and> analytics_summary [] 1 sample_now 30 \<noteq> Inr empty_summary
   \<and> analytics_summary [] 1 sample_now 800000 = Inl (PyException ''OverflowError'')"
  by (simp add: analytics_summary_def query_conversations_def sample_cutoff overflow_cutoff
      bind_exn_def empty_summary_def)

text \<open>
  Claim C9, amended. When the lookback has a cutoff date and the set of filtered records
  is empty, \<open>get_summary_stats\<close> returns the record with 0 entries, most common emotion
  \<open>N/A\<close>, average sentiment 0 and 0 days tracked, and raises nothing; the
  \<open>analytics_summary\<close> route returns the same record with \<open>neutral\<close> as the most common
  emotion. When the lookback has no cutoff date, both raise the exception of the date
  arithmetic.
\<close>

theorem summary_stats_empty:
  "(query_emotion_history db user_id now days = Inr [] \<longrightarrow>
      get_summary_stats py_round db user_id now days = Inr empty_summary)
   \<and> (query_conversations cdb user_id now days = Inr [] \<longrightarrow>
      analytics_summary cdb user_id now days
        = Inr (empty_summary\<lparr>most_common_emotion := ''neutral''\<rparr>))
   \<and> (cutoff_date now days = Inl e \<longrightarrow>
      get_summary_stats py_round db user_id now days = Inl e
      \<and> analytics_summary cdb user_id now days = Inl e)"
  by (simp add: get_summary_stats_def analytics_summary_def query_emotion_history_def
      query_conversations_def bind_exn_def empty_summary_def)

theorem summary_stats_empty_witness:
  "query_emotion_history sample_history 3 sample_now 30 = Inr []
   \<and> get_summary_stats (\<lambda>x ndigits. x) sample_history 3 sample_now 30 = Inr empty_summary
   \<and> query_conversations sample_conversations 3 sample_now 30 = Inr []
   \<and> analytics_summary sample_conversations 3 sample_now 30
        = Inr (empty_summary\<lparr>most_common_emotion := ''neutral''\<rparr>)
   \<and> cutoff_date sample_now 800000 = Inl (PyException ''OverflowError'')
   \<and> get_summary_stats (\<lambda>x ndigits. x) sample_history 3 sample_now 800000
        = Inl (PyException ''OverflowError'')
   \<and> analytics_summary sample_conversations 3 sample_now 800000
        = Inl (PyException ''OverflowError'')"
  using summary_stats_empty [of sample_history 3 sample_now 30 "\<lambda>x ndigits. x" sample_conversations]
    summary_stats_empty [of sample_history 3 sample_now 800000 "\<lambda>x ndigits. x"
      sample_conversations "PyException ''OverflowError''"]
    sample_history_none sample_messages_none overflow_cutoff
  by simp

end
